theory Spec2Isabelle
  imports Main
begin

section \<open>JavaScript values and string primitives used by the server\<close>

text \<open>
  The server (\<^verbatim>\<open>class ForestServer\<close>) is JavaScript. Strings are modelled as \<^typ>\<open>string\<close>
  (ASCII characters; case mapping and white space are the ASCII ones). A JavaScript number that
  the time code produces is an integer or \<^verbatim>\<open>NaN\<close>; integers are taken unbounded (the
  code stays far below \<^verbatim>\<open>2^53\<close>).
\<close>

datatype jsnum = Num int | NaN

datatype js_error = TypeError | Error string

fun jsAdd :: "jsnum \<Rightarrow> jsnum \<Rightarrow> jsnum" where
  "jsAdd (Num a) (Num b) = Num (a + b)"
| "jsAdd _ _ = NaN"

fun jsMul :: "jsnum \<Rightarrow> jsnum \<Rightarrow> jsnum" where
  "jsMul (Num a) (Num b) = Num (a * b)"
| "jsMul _ _ = NaN"

text \<open>\<^verbatim>\<open>a % b\<close> on integers: the sign follows the dividend.\<close>

definition jsRem :: "int \<Rightarrow> int \<Rightarrow> int" where
  "jsRem a b = sgn a * (\<bar>a\<bar> mod \<bar>b\<bar>)"

definition isSpace :: "char \<Rightarrow> bool" where
  "isSpace c = (c \<in> set [CHR 0x09, CHR 0x0A, CHR 0x0B, CHR 0x0C, CHR 0x0D, CHR '' ''])"

definition trim :: "string \<Rightarrow> string" where
  "trim s = rev (dropWhile isSpace (rev (dropWhile isSpace s)))"

definition toUpperChar :: "char \<Rightarrow> char" where
  "toUpperChar c =
     (if (97::nat) \<le> of_char c \<and> of_char c \<le> (122::nat) then char_of (of_char c - (32::nat)) else c)"

definition toLowerChar :: "char \<Rightarrow> char" where
  "toLowerChar c =
     (if (65::nat) \<le> of_char c \<and> of_char c \<le> (90::nat) then char_of (of_char c + (32::nat)) else c)"

definition toUpperCase :: "string \<Rightarrow> string" where
  "toUpperCase s = map toUpperChar s"

definition toLowerCase :: "string \<Rightarrow> string" where
  "toLowerCase s = map toLowerChar s"

text \<open>\<^verbatim>\<open>s.split(c)\<close> for a one-character separator; the result is never empty.\<close>

fun splitOn :: "char \<Rightarrow> string \<Rightarrow> string list" where
  "splitOn c [] = [[]]"
| "splitOn c (x # xs) =
     (if x = c then [] # splitOn c xs
      else (let r = splitOn c xs in (x # hd r) # tl r))"

text \<open>\<^verbatim>\<open>s.includes(sub)\<close>.\<close>

fun str_includes :: "string \<Rightarrow> string \<Rightarrow> bool" where
  "str_includes [] sub = (sub = [])"
| "str_includes (x # xs) sub = (take (length sub) (x # xs) = sub \<or> str_includes xs sub)"

definition isDigit :: "char \<Rightarrow> bool" where
  "isDigit c = ((48::nat) \<le> of_char c \<and> of_char c \<le> (57::nat))"

definition digitVal :: "char \<Rightarrow> nat" where
  "digitVal c = of_char c - 48"

definition digitChar :: "nat \<Rightarrow> char" where
  "digitChar n = char_of (48 + n)"

definition digitsVal :: "string \<Rightarrow> nat" where
  "digitsVal s = foldl (\<lambda>acc c. 10 * acc + digitVal c) 0 s"

text \<open>
  \<^verbatim>\<open>Number(s)\<close> on the decimal-integer fragment of the string-to-number grammar: white space
  is trimmed, the empty string is 0, an optionally signed run of decimal digits is its value,
  and a string that is no number is \<^verbatim>\<open>NaN\<close>. Fractions, exponents, radix prefixes and
  \<^verbatim>\<open>Infinity\<close> have no integer value and are outside this model; no result below
  is instantiated at such a string.
\<close>

definition Number_js :: "string \<Rightarrow> jsnum" where
  "Number_js s =
     (let t = trim s in
      if t = [] then Num 0
      else if list_all isDigit t then Num (int (digitsVal t))
      else if hd t = CHR ''-'' \<and> tl t \<noteq> [] \<and> list_all isDigit (tl t) then Num (- int (digitsVal (tl t)))
      else if hd t = CHR ''+'' \<and> tl t \<noteq> [] \<and> list_all isDigit (tl t) then Num (int (digitsVal (tl t)))
      else NaN)"

text \<open>\<^verbatim>\<open>n.toString()\<close> for an integer, and \<^verbatim>\<open>s.padStart(n, c)\<close>.\<close>

fun showNat :: "nat \<Rightarrow> string" where
  "showNat n = (if n < 10 then [digitChar n] else showNat (n div 10) @ [digitChar (n mod 10)])"

declare showNat.simps [simp del]

definition toString :: "int \<Rightarrow> string" where
  "toString i = (if i < 0 then CHR ''-'' # showNat (nat (- i)) else showNat (nat i))"

definition padStart :: "nat \<Rightarrow> char \<Rightarrow> string \<Rightarrow> string" where
  "padStart n c s = replicate (n - length s) c @ s"

section \<open>TimeConversion: \<^verbatim>\<open>parseTime\<close> and \<^verbatim>\<open>formatTime\<close>\<close>

text \<open>The test \<^verbatim>\<open>/[AP]M/i.test(s)\<close>: an A or P followed by an M, in either case.\<close>

fun hasAmPm :: "string \<Rightarrow> bool" where
  "hasAmPm (a # b # rest) =
     (((toUpperChar a = CHR ''A'' \<or> toUpperChar a = CHR ''P'') \<and> toUpperChar b = CHR ''M'')
      \<or> hasAmPm (b # rest))"
| "hasAmPm _ = False"

text \<open>
  The body of the \<^verbatim>\<open>try\<close> block of \<^verbatim>\<open>parseTime\<close>. A destructured element that is missing
  is \<^verbatim>\<open>undefined\<close>: \<^verbatim>\<open>Number(undefined)\<close> is \<^verbatim>\<open>NaN\<close>, \<^verbatim>\<open>undefined.toUpperCase()\<close>
  throws a TypeError, and \<^verbatim>\<open>x + undefined\<close> is \<^verbatim>\<open>NaN\<close>.
\<close>

definition parseTime_try :: "string \<Rightarrow> js_error + jsnum" where
  "parseTime_try timeStr =
     (let cleaned = trim timeStr in
      if \<not> hasAmPm cleaned then
        (let parts = splitOn (CHR '':'') cleaned;
             hours = Number_js (hd parts);
             minutes = (case tl parts of [] \<Rightarrow> NaN | mStr # _ \<Rightarrow> Number_js mStr)
         in if hours = NaN \<or> minutes = NaN then Inl (Error ''Invalid time'')
            else Inr (jsAdd (jsMul (if hours = Num 24 then Num 0 else hours) (Num 60)) minutes))
      else
        (let ws = splitOn (CHR '' '') cleaned;
             time = hd ws
         in case tl ws of
              [] \<Rightarrow> Inl TypeError
            | periodRaw # _ \<Rightarrow>
               (let period = toUpperCase periodRaw;
                    nums = map Number_js (splitOn (CHR '':'') time);
                    hours = hd nums;
                    minutes = (case tl nums of [] \<Rightarrow> NaN | m # _ \<Rightarrow> m);
                    hours1 = (if period = ''PM'' \<and> hours \<noteq> Num 12 then jsAdd hours (Num 12) else hours);
                    hours2 = (if period = ''AM'' \<and> hours1 = Num 12 then Num 0 else hours1)
                in Inr (jsAdd (jsMul hours2 (Num 60)) minutes))))"

text \<open>\<^verbatim>\<open>parseTime\<close>: the \<^verbatim>\<open>catch\<close> turns every exception into the value 0.\<close>

definition parseTime :: "string \<Rightarrow> jsnum" where
  "parseTime timeStr = (case parseTime_try timeStr of Inl _ \<Rightarrow> Num 0 | Inr v \<Rightarrow> v)"

text \<open>
  \<^verbatim>\<open>formatTime\<close> on an integer number of minutes. Nothing in its \<^verbatim>\<open>try\<close> block throws on
  a number, so the \<^verbatim>\<open>catch\<close> (which returns \<^verbatim>\<open>'12:00 AM'\<close>) is not reached.
\<close>

definition formatTime :: "int \<Rightarrow> string" where
  "formatTime minutes =
     (let minsMod = jsRem (jsRem minutes (24 * 60) + 24 * 60) (24 * 60);
          hours = minsMod div 60;
          mins = jsRem minsMod 60;
          period = (if hours \<ge> 12 then ''PM'' else ''AM'');
          displayHours = (if hours = 0 then 12 else if hours > 12 then hours - 12 else hours)
      in toString displayHours @ '':'' @ padStart 2 (CHR ''0'') (toString mins) @ '' '' @ period)"

section \<open>Data model\<close>

text \<open>More number operations.\<close>

fun jsSub :: "jsnum \<Rightarrow> jsnum \<Rightarrow> jsnum" where
  "jsSub (Num a) (Num b) = Num (a - b)"
| "jsSub _ _ = NaN"

fun jsMax :: "jsnum \<Rightarrow> jsnum \<Rightarrow> jsnum" where
  "jsMax (Num a) (Num b) = Num (max a b)"
| "jsMax _ _ = NaN"

fun jsMin :: "jsnum \<Rightarrow> jsnum \<Rightarrow> jsnum" where
  "jsMin (Num a) (Num b) = Num (min a b)"
| "jsMin _ _ = NaN"

fun jsLe :: "jsnum \<Rightarrow> jsnum \<Rightarrow> bool" where
  "jsLe (Num a) (Num b) = (a \<le> b)"
| "jsLe _ _ = False"

fun jsLt :: "jsnum \<Rightarrow> jsnum \<Rightarrow> bool" where
  "jsLt (Num a) (Num b) = (a < b)"
| "jsLt _ _ = False"

definition jsGe :: "jsnum \<Rightarrow> jsnum \<Rightarrow> bool" where
  "jsGe a b = jsLe b a"

definition jsGt :: "jsnum \<Rightarrow> jsnum \<Rightarrow> bool" where
  "jsGt a b = jsLt b a"

text \<open>
  What a numeric field of an object holds: a number, \<^verbatim>\<open>null\<close>, or nothing (the field is
  absent and reads as \<^verbatim>\<open>undefined\<close>). Arithmetic, comparisons and \<^verbatim>\<open>Math.max\<close> convert
  the value to a number first: \<^verbatim>\<open>null\<close> becomes 0 and \<^verbatim>\<open>undefined\<close> becomes \<^verbatim>\<open>NaN\<close>.
\<close>

datatype jsval = Undefined | Null | Number jsnum

fun toNum :: "jsval \<Rightarrow> jsnum" where
  "toNum Undefined = NaN"
| "toNum Null = Num 0"
| "toNum (Number x) = x"

text \<open>
  \<^verbatim>\<open>x || d\<close> on a number and on an optional string (0, \<^verbatim>\<open>NaN\<close> and the empty string are
  falsy; so are \<^verbatim>\<open>null\<close> and \<^verbatim>\<open>undefined\<close>, which \<^const>\<open>toNum\<close> sends to 0 and
  \<^verbatim>\<open>NaN\<close>).
\<close>

definition numOr :: "jsnum \<Rightarrow> jsnum \<Rightarrow> jsnum" where
  "numOr x d = (if x = NaN \<or> x = Num 0 then d else x)"

definition strOr :: "string option \<Rightarrow> string \<Rightarrow> string" where
  "strOr x d = (case x of None \<Rightarrow> d | Some s \<Rightarrow> if s = [] then d else s)"

text \<open>A value inside a template literal: \<^verbatim>\<open>undefined\<close> prints as itself.\<close>

definition tmpl :: "string option \<Rightarrow> string" where
  "tmpl x = (case x of None \<Rightarrow> ''undefined'' | Some s \<Rightarrow> s)"

text \<open>A frontier node (also a completed node, once the two completion fields are set).\<close>

record node =
  n_id :: string
  n_title :: string
  n_description :: "string option"
  n_branch_type :: string
  n_estimated_time :: "string option"
  n_priority :: string
  n_status :: string
  n_knowledge_level :: "string option"
  n_magnitude :: jsval
  n_prerequisites :: "string list option"
  n_learning_outcomes :: "string list option"
  n_generated_from :: "string option"
  n_interest_based :: bool
  n_path_priority :: "bool option"
  n_path_focus :: "string option"
  n_completed_date :: "string option"
  n_actual_difficulty :: "int option"

text \<open>An object literal of the source sets some fields; the others stay absent.\<close>

definition newNode :: node where
  "newNode = \<lparr> n_id = [], n_title = [], n_description = None, n_branch_type = [],
     n_estimated_time = None, n_priority = [], n_status = [], n_knowledge_level = None,
     n_magnitude = Undefined, n_prerequisites = None, n_learning_outcomes = None,
     n_generated_from = None, n_interest_based = False, n_path_priority = None,
     n_path_focus = None, n_completed_date = None, n_actual_difficulty = None \<rparr>"

text \<open>
  What \<^verbatim>\<open>detectEmergentOpportunities\<close> and \<^verbatim>\<open>invalidateUnnecessaryTasks\<close> read of their
  argument \<^verbatim>\<open>completedTask\<close>, which is a completed node or (when there is none) the completed
  schedule block.
\<close>

record task_ref =
  r_id :: string
  r_title :: "string option"
  r_estimated_time :: "string option"
  r_magnitude :: jsval
  r_branch_type :: "string option"

definition nodeRef :: "node \<Rightarrow> task_ref" where
  "nodeRef n = \<lparr> r_id = n_id n, r_title = Some (n_title n), r_estimated_time = n_estimated_time n,
     r_magnitude = n_magnitude n, r_branch_type = Some (n_branch_type n) \<rparr>"

text \<open>
  An entry of \<^verbatim>\<open>externalFeedback\<close>: the tool schema declares an object with the fields
  \<^verbatim>\<open>source\<close>, \<^verbatim>\<open>content\<close> and \<^verbatim>\<open>sentiment\<close>; the detector also handles a plain string.
\<close>

datatype feedback =
  FbString string
| FbObject (fb_source: "string option") (fb_content: "string option") (fb_sentiment: "string option")

record completion_context =
  engagementLevel :: int
  unexpectedResults :: "string list"
  newSkillsRevealed :: "string list"
  externalFeedback :: "feedback list"
  socialReactions :: "string list"
  viralPotential :: bool
  industryConnections :: "string list"
  serendipitousEvents :: "string list"
  difficultyRating :: int
  breakthrough :: bool
  shorterPathDiscovered :: bool

text \<open>
  \<^verbatim>\<open>generateId()\<close> draws random identifiers; \<open>ids k\<close> is the \<open>k\<close>-th identifier drawn, and
  the number of identifiers drawn so far is threaded through the functions that draw.
\<close>

type_synonym idgen = "nat \<Rightarrow> string"

section \<open>OpportunityDetector\<close>

definition breakthroughNode :: "string \<Rightarrow> task_ref \<Rightarrow> node" where
  "breakthroughNode i completedTask = newNode \<lparr>
     n_id := i,
     n_title := ''Amplify Success: '' @ tmpl (r_title completedTask),
     n_description := Some (''Your high engagement with \"'' @ tmpl (r_title completedTask)
        @ ''\" suggests deeper potential. Let's explore this further.''),
     n_branch_type := ''breakthrough_amplification'',
     n_estimated_time := Some (strOr (r_estimated_time completedTask) ''25 minutes''),
     n_priority := ''high'',
     n_status := ''ready'',
     n_magnitude := Number (jsMax (Num 3) (jsSub (toNum (r_magnitude completedTask)) (Num 1))),
     n_prerequisites := Some [r_id completedTask],
     n_generated_from := Some ''high_engagement_detection'',
     n_learning_outcomes := Some [''Explore natural talent'', ''Build on momentum'',
        ''Discover hidden capabilities''] \<rparr>"

definition serendipityNode :: "string \<Rightarrow> task_ref \<Rightarrow> string \<Rightarrow> node" where
  "serendipityNode i completedTask result = newNode \<lparr>
     n_id := i,
     n_title := ''Explore Unexpected: '' @ result,
     n_description := Some (''The unexpected result \"'' @ result @ ''\" from \"''
        @ tmpl (r_title completedTask) @ ''\" may open new pathways we hadn't considered.''),
     n_branch_type := ''serendipity_pathway'',
     n_estimated_time := Some ''15 minutes'',
     n_priority := ''medium'',
     n_status := ''ready'',
     n_magnitude := Number (Num 4),
     n_prerequisites := Some [r_id completedTask],
     n_generated_from := Some ''unexpected_result_detection'',
     n_learning_outcomes := Some [''Investigate serendipity'', ''Explore new directions'',
        ''Follow emerging opportunities''] \<rparr>"

definition talentNode :: "string \<Rightarrow> task_ref \<Rightarrow> string \<Rightarrow> node" where
  "talentNode i completedTask skill = newNode \<lparr>
     n_id := i,
     n_title := ''Develop Hidden Talent: '' @ skill,
     n_description := Some (''Completing \"'' @ tmpl (r_title completedTask)
        @ ''\" revealed you have natural ability in '' @ skill @ ''. Let's build on this.''),
     n_branch_type := ''hidden_talent_development'',
     n_estimated_time := Some ''30 minutes'',
     n_priority := ''high'',
     n_status := ''ready'',
     n_magnitude := Number (Num 5),
     n_prerequisites := Some [r_id completedTask],
     n_generated_from := Some ''skill_revelation_detection'',
     n_learning_outcomes := Some [''Develop '' @ skill, ''Build confidence'',
        ''Explore natural abilities''] \<rparr>"

text \<open>
  The test on one feedback entry. \<^verbatim>\<open>feedback.sentiment === 'positive'\<close> is tried first; a
  string has no such field. \<^verbatim>\<open>feedback.includes(...)\<close> is a method of strings: on an object
  \<^verbatim>\<open>feedback.includes\<close> is \<^verbatim>\<open>undefined\<close> and the call throws a TypeError.
\<close>

fun feedbackSignalsInterest :: "feedback \<Rightarrow> js_error + bool" where
  "feedbackSignalsInterest (FbString s) =
     Inr (str_includes s ''viral'' \<or> str_includes s ''interested'')"
| "feedbackSignalsInterest (FbObject src cont sent) =
     (if sent = Some ''positive'' then Inr True else Inl TypeError)"

fun feedbackSource :: "feedback \<Rightarrow> string" where
  "feedbackSource (FbString s) = ''Unknown''"
| "feedbackSource (FbObject src cont sent) = strOr src ''Unknown''"

fun feedbackText :: "feedback \<Rightarrow> string" where
  "feedbackText (FbString s) = s"
| "feedbackText (FbObject src cont sent) = strOr cont ''[object Object]''"

definition externalNode :: "string \<Rightarrow> task_ref \<Rightarrow> feedback \<Rightarrow> node" where
  "externalNode i completedTask fb = newNode \<lparr>
     n_id := i,
     n_title := ''Leverage External Interest: '' @ feedbackSource fb,
     n_description := Some (''External feedback on \"'' @ tmpl (r_title completedTask) @ ''\": \"''
        @ feedbackText fb @ ''\". This could be an opportunity.''),
     n_branch_type := ''external_opportunity'',
     n_estimated_time := Some ''20 minutes'',
     n_priority := ''critical'',
     n_status := ''ready'',
     n_magnitude := Number (Num 6),
     n_prerequisites := Some [r_id completedTask],
     n_generated_from := Some ''external_feedback_detection'',
     n_learning_outcomes := Some [''Capitalize on interest'', ''Build external connections'',
        ''Amplify reach''] \<rparr>"

text \<open>The three \<^verbatim>\<open>forEach\<close> loops; each pushed node draws one identifier.\<close>

fun pushSerendipity :: "idgen \<Rightarrow> task_ref \<Rightarrow> string list \<Rightarrow> node list \<times> nat \<Rightarrow> node list \<times> nat" where
  "pushSerendipity ids ct [] acc = acc"
| "pushSerendipity ids ct (result # rest) (opps, k) =
     pushSerendipity ids ct rest (opps @ [serendipityNode (ids k) ct result], Suc k)"

fun pushTalent :: "idgen \<Rightarrow> task_ref \<Rightarrow> string list \<Rightarrow> node list \<times> nat \<Rightarrow> node list \<times> nat" where
  "pushTalent ids ct [] acc = acc"
| "pushTalent ids ct (skill # rest) (opps, k) =
     pushTalent ids ct rest (opps @ [talentNode (ids k) ct skill], Suc k)"

fun pushExternal :: "idgen \<Rightarrow> task_ref \<Rightarrow> feedback list \<Rightarrow> node list \<times> nat
    \<Rightarrow> js_error + (node list \<times> nat)" where
  "pushExternal ids ct [] acc = Inr acc"
| "pushExternal ids ct (fb # rest) (opps, k) =
     (case feedbackSignalsInterest fb of
        Inl e \<Rightarrow> Inl e
      | Inr True \<Rightarrow> pushExternal ids ct rest (opps @ [externalNode (ids k) ct fb], Suc k)
      | Inr False \<Rightarrow> pushExternal ids ct rest (opps, k))"

definition detectEmergentOpportunities ::
    "idgen \<Rightarrow> nat \<Rightarrow> task_ref \<Rightarrow> completion_context \<Rightarrow> js_error + (node list \<times> nat)" where
  "detectEmergentOpportunities ids k completedTask completionContext =
     (let s0 = (if engagementLevel completionContext \<ge> 8
                then ([breakthroughNode (ids k) completedTask], Suc k) else ([], k));
          s1 = pushSerendipity ids completedTask (unexpectedResults completionContext) s0;
          s2 = pushTalent ids completedTask (newSkillsRevealed completionContext) s1
      in pushExternal ids completedTask (externalFeedback completionContext) s2)"

section \<open>Schedules, the task tree and the persistent store\<close>

text \<open>
  A time block of a day's schedule. Every block that the server creates has an action. The last
  seven fields are set by \<^verbatim>\<open>completeBlock\<close>.
\<close>

record block =
  b_id :: string
  b_type :: string
  b_time :: string
  b_duration :: string
  b_action :: string
  b_description :: "string option"
  b_strategic_purpose :: "string option"
  b_learning_outcomes :: "string list option"
  b_magnitude :: jsval
  b_prerequisites :: "string list option"
  b_energy_type :: "string option"
  b_energy_impact :: "string option"
  b_fixed :: bool
  b_habit_type :: "string option"
  b_tracking_metrics :: "string list option"
  b_success_criteria :: "string option"
  b_hta_connected :: bool
  b_completed :: "string option"
  b_outcome :: "string option"
  b_learned :: "string option"
  b_next_questions :: "string option"
  b_energy_after :: "int option"
  b_difficulty_rating :: "int option"
  b_breakthrough :: "bool option"

definition newBlock :: block where
  "newBlock = \<lparr> b_id = [], b_type = [], b_time = [], b_duration = [], b_action = [],
     b_description = None, b_strategic_purpose = None, b_learning_outcomes = None,
     b_magnitude = Undefined, b_prerequisites = None, b_energy_type = None, b_energy_impact = None,
     b_fixed = False, b_habit_type = None, b_tracking_metrics = None, b_success_criteria = None,
     b_hta_connected = False, b_completed = None, b_outcome = None, b_learned = None,
     b_next_questions = None, b_energy_after = None, b_difficulty_rating = None,
     b_breakthrough = None \<rparr>"

definition blockRef :: "block \<Rightarrow> task_ref" where
  "blockRef b = \<lparr> r_id = b_id b, r_title = None, r_estimated_time = None,
     r_magnitude = b_magnitude b, r_branch_type = None \<rparr>"

record schedule =
  s_project_id :: "string option"
  s_date :: "string option"
  s_north_star :: string
  s_time_blocks :: "block list option"
  s_total_blocks :: int
  s_completed :: int
  s_energy_level :: int
  s_focus_type :: string
  s_created :: "string option"

text \<open>A habit node of the task tree (what the scheduler reads of it).\<close>

record habit =
  h_id :: string
  h_type :: string
  h_title :: string
  h_description :: "string option"
  h_status :: string
  h_tracking_metrics :: "string list option"
  h_success_criteria :: "string option"

record hta =
  north_star :: string
  frontier_nodes :: "node list"
  completed_nodes :: "node list option"
  habit_nodes :: "habit list option"
  last_evolution :: "string option"

record topic_entry =
  t_topic :: string
  t_date :: string
  t_learned :: string
  t_difficulty :: int
  t_breakthrough :: bool

record gap_entry =
  g_question :: string
  g_discovered :: string
  g_from_topic :: string

record history =
  completed_topics :: "topic_entry list"
  knowledge_gaps :: "gap_entry list"

text \<open>
  The project configuration, as far as scheduling and sequencing read it. The two minute
  values are integers (they come from \<^verbatim>\<open>parseTime\<close> when the project is created).
\<close>

record config =
  goal :: string
  wake_minutes :: int
  sleep_minutes :: int
  meal_times :: "string list option"
  focus_duration :: "string option"
  transition_time :: "string option"
  active_learning_path :: "string option"
  specific_interests :: "string list option"
  knowledge_level :: "int option"
  breakthroughs :: "int option"

record global_config =
  projects :: "string list"
  active_project :: "string option"

text \<open>
  The data directory: JSON files, global, per project and per learning path of a project.
  A file holds one kind of data; a file that is missing, or holds another kind than the one
  read, loads as \<^verbatim>\<open>null\<close>. A write to a file in \<open>unwritable\<close> fails (the save function
  catches the error and returns \<^verbatim>\<open>false\<close>), any other write succeeds.

  A save writes \<^verbatim>\<open>JSON.stringify(data)\<close>, and what is loaded later is the parsed text: a
  number that is \<^verbatim>\<open>NaN\<close> is written as \<^verbatim>\<open>null\<close>, and a field that is \<^verbatim>\<open>undefined\<close> is
  left out, so it is absent again when read. The magnitudes are the only numbers of the data
  below that can be \<^verbatim>\<open>NaN\<close>; every other value is written and read back as it is.
\<close>

datatype file_key =
  GlobalFile string
| ProjectFile string string
| PathFile string string string

datatype fdata =
  FGlobal global_config
| FConfig config
| FHTA hta
| FHistory history
| FSchedule schedule

record store =
  files :: "file_key \<rightharpoonup> fdata"
  unwritable :: "file_key set"

fun jsonVal :: "jsval \<Rightarrow> jsval" where
  "jsonVal (Number NaN) = Null"
| "jsonVal v = v"

definition jsonNode :: "node \<Rightarrow> node" where
  "jsonNode n = n \<lparr> n_magnitude := jsonVal (n_magnitude n) \<rparr>"

definition jsonBlock :: "block \<Rightarrow> block" where
  "jsonBlock b = b \<lparr> b_magnitude := jsonVal (b_magnitude b) \<rparr>"

fun jsonData :: "fdata \<Rightarrow> fdata" where
  "jsonData (FHTA h) = FHTA (h \<lparr> frontier_nodes := map jsonNode (frontier_nodes h),
       completed_nodes := map_option (map jsonNode) (completed_nodes h) \<rparr>)"
| "jsonData (FSchedule s) = FSchedule (s \<lparr> s_time_blocks := map_option (map jsonBlock) (s_time_blocks s) \<rparr>)"
| "jsonData d = d"

definition loadProjectData :: "store \<Rightarrow> string \<Rightarrow> string \<Rightarrow> fdata option" where
  "loadProjectData st projectId filename = files st (ProjectFile projectId filename)"

definition saveProjectData :: "store \<Rightarrow> string \<Rightarrow> string \<Rightarrow> fdata \<Rightarrow> bool \<times> store" where
  "saveProjectData st projectId filename d =
     (if ProjectFile projectId filename \<in> unwritable st then (False, st)
      else (True, st \<lparr> files := (files st)(ProjectFile projectId filename \<mapsto> jsonData d) \<rparr>))"

definition loadPathData :: "store \<Rightarrow> string \<Rightarrow> string \<Rightarrow> string \<Rightarrow> fdata option" where
  "loadPathData st projectId pathName filename = files st (PathFile projectId pathName filename)"

definition savePathData :: "store \<Rightarrow> string \<Rightarrow> string \<Rightarrow> string \<Rightarrow> fdata \<Rightarrow> bool \<times> store" where
  "savePathData st projectId pathName filename d =
     (if PathFile projectId pathName filename \<in> unwritable st then (False, st)
      else (True, st \<lparr> files := (files st)(PathFile projectId pathName filename \<mapsto> jsonData d) \<rparr>))"

definition loadGlobalData :: "store \<Rightarrow> string \<Rightarrow> fdata option" where
  "loadGlobalData st filename = files st (GlobalFile filename)"

fun asGlobal :: "fdata option \<Rightarrow> global_config option" where
  "asGlobal (Some (FGlobal g)) = Some g"
| "asGlobal _ = None"

fun asConfig :: "fdata option \<Rightarrow> config option" where
  "asConfig (Some (FConfig c)) = Some c"
| "asConfig _ = None"

fun asHTA :: "fdata option \<Rightarrow> hta option" where
  "asHTA (Some (FHTA h)) = Some h"
| "asHTA _ = None"

fun asHistory :: "fdata option \<Rightarrow> history option" where
  "asHistory (Some (FHistory h)) = Some h"
| "asHistory _ = None"

fun asSchedule :: "fdata option \<Rightarrow> schedule option" where
  "asSchedule (Some (FSchedule s)) = Some s"
| "asSchedule _ = None"

text \<open>
  The clock: \<^verbatim>\<open>new Date().toISOString()\<close>, \<^verbatim>\<open>getTodayDate()\<close> and
  \<^verbatim>\<open>getHours()*60 + getMinutes()\<close>, read once for an operation; and the identifiers that
  \<^verbatim>\<open>generateId()\<close> draws.
\<close>

record env =
  now_iso :: string
  today :: string
  clock_minutes :: int
  id_source :: idgen

definition dayFile :: "string \<Rightarrow> string" where
  "dayFile date = ''day_'' @ date @ ''.json''"

text \<open>
  An operation runs on the store and either returns a value or throws; what it wrote before
  throwing stays written. \<open>draws\<close> counts the identifiers drawn.
\<close>

type_synonym 'a outcome = "(js_error + 'a) \<times> store"

definition requireActiveProject :: "store \<Rightarrow> js_error + string" where
  "requireActiveProject st =
     (case asGlobal (loadGlobalData st ''config.json'') of
        None \<Rightarrow> Inl (Error ''No active project. Use create_project or switch_project first.'')
      | Some globalConfig \<Rightarrow>
          (case active_project globalConfig of
             None \<Rightarrow> Inl (Error ''No active project. Use create_project or switch_project first.'')
           | Some p \<Rightarrow> if p = [] then Inl (Error ''No active project. Use create_project or switch_project first.'')
                       else Inr p))"

definition getActiveHTA :: "store \<Rightarrow> string \<Rightarrow> hta option" where
  "getActiveHTA st projectId =
     (case asConfig (loadProjectData st projectId ''config.json'') of
        None \<Rightarrow> None
      | Some projectConfig \<Rightarrow>
          (let activePath = strOr (active_learning_path projectConfig) ''general'' in
           case asHTA (loadPathData st projectId activePath ''hta.json'') of
             Some h \<Rightarrow> Some h
           | None \<Rightarrow> asHTA (loadProjectData st projectId ''hta.json'')))"

section \<open>SequenceEngine: evolving the frontier after a completion\<close>

text \<open>\<^verbatim>\<open>array.filter(f)\<close> with a callback that may throw.\<close>

fun filterE :: "('a \<Rightarrow> js_error + bool) \<Rightarrow> 'a list \<Rightarrow> js_error + 'a list" where
  "filterE f [] = Inr []"
| "filterE f (x # xs) =
     (case f x of
        Inl e \<Rightarrow> Inl e
      | Inr keep \<Rightarrow>
          (case filterE f xs of
             Inl e \<Rightarrow> Inl e
           | Inr ys \<Rightarrow> Inr (if keep then x # ys else ys)))"

text \<open>
  The callback of \<^verbatim>\<open>invalidateUnnecessaryTasks\<close>: true when the node is kept.
  \<^verbatim>\<open>node.prerequisites.includes\<close> throws when the node has no prerequisites field.
\<close>

definition keepTask :: "task_ref \<Rightarrow> completion_context \<Rightarrow> node \<Rightarrow> js_error + bool" where
  "keepTask completedTask completionContext node =
     (let skillBasedInvalidation = list_ex (\<lambda>skill.
            str_includes (toLowerCase (n_title node)) (toLowerCase skill)
            \<and> n_branch_type node = ''fundamentals''
            \<and> r_branch_type completedTask \<noteq> Some ''fundamentals'')
            (newSkillsRevealed completionContext);
          resultBasedInvalidation = list_ex (\<lambda>result.
            (case n_description node of
               None \<Rightarrow> False
             | Some d \<Rightarrow> d \<noteq> [] \<and> str_includes (toLowerCase d) (toLowerCase result)
                  \<and> jsLe (toNum (n_magnitude node)) (toNum (r_magnitude completedTask))))
            (unexpectedResults completionContext)
      in if shorterPathDiscovered completionContext \<and> n_branch_type node = ''preparation''
         then (case n_prerequisites node of
                 None \<Rightarrow> Inl TypeError
               | Some ps \<Rightarrow>
                   Inr (\<not> (skillBasedInvalidation \<or> resultBasedInvalidation
                          \<or> r_id completedTask \<in> set ps)))
         else Inr (\<not> (skillBasedInvalidation \<or> resultBasedInvalidation)))"

definition invalidateUnnecessaryTasks ::
    "node list \<Rightarrow> task_ref \<Rightarrow> completion_context \<Rightarrow> js_error + node list" where
  "invalidateUnnecessaryTasks frontierNodes completedTask completionContext =
     filterE (keepTask completedTask completionContext) frontierNodes"

definition continuationTask :: "string \<Rightarrow> block \<Rightarrow> node" where
  "continuationTask i completedBlock = newNode \<lparr>
     n_id := i,
     n_title := ''Continue: Build on '' @ b_action completedBlock,
     n_description := Some (''Apply and extend what you learned from: ''
        @ b_action completedBlock),
     n_branch_type := strOr (b_strategic_purpose completedBlock) ''practical'',
     n_estimated_time := Some ''As long as needed'',
     n_priority := ''high'',
     n_status := ''ready'',
     n_knowledge_level := Some ''intermediate'',
     n_magnitude := Number (jsMax (Num 4) (jsSub (numOr (toNum (b_magnitude completedBlock)) (Num 6)) (Num 1))),
     n_prerequisites := Some [b_id completedBlock],
     n_learning_outcomes := Some [''Apply '' @ b_action completedBlock @ '' knowledge'',
        ''Deepen understanding'', ''Build practical skills''],
     n_generated_from := Some ''task_completion'' \<rparr>"

definition researchTask :: "string \<Rightarrow> block \<Rightarrow> string \<Rightarrow> node" where
  "researchTask i completedBlock nextQuestions = newNode \<lparr>
     n_id := i,
     n_title := ''Research: '' @ take 50 nextQuestions @ ''...'',
     n_description := Some (''Investigate: '' @ nextQuestions),
     n_branch_type := ''research'',
     n_estimated_time := Some ''As long as needed'',
     n_priority := ''medium'',
     n_status := ''ready'',
     n_knowledge_level := Some ''intermediate'',
     n_magnitude := Number (Num 5),
     n_prerequisites := Some [b_id completedBlock],
     n_learning_outcomes := Some [''Answer: '' @ nextQuestions, ''Fill knowledge gaps'',
        ''Prepare for advanced topics''],
     n_generated_from := Some ''curiosity'' \<rparr>"

text \<open>
  Moving the completed node: \<^verbatim>\<open>findIndex\<close> by the block's id, \<^verbatim>\<open>splice\<close>, and
  \<^verbatim>\<open>completed_nodes.push\<close> (a TypeError when the tree has no \<^verbatim>\<open>completed_nodes\<close>).
\<close>

definition moveCompleted :: "env \<Rightarrow> int \<Rightarrow> block \<Rightarrow> hta \<Rightarrow> js_error + hta" where
  "moveCompleted e rating completedBlock h =
     (case find (\<lambda>n. n_id n = b_id completedBlock) (frontier_nodes h) of
        None \<Rightarrow> Inr h
      | Some n \<Rightarrow>
          (case completed_nodes h of
             None \<Rightarrow> Inl TypeError
           | Some cs \<Rightarrow>
               (let nodeIndex = length (takeWhile (\<lambda>n. n_id n \<noteq> b_id completedBlock) (frontier_nodes h));
                    completedNode = n \<lparr> n_completed_date := Some (now_iso e),
                                        n_actual_difficulty := Some rating \<rparr>
                in Inr (h \<lparr> frontier_nodes := take nodeIndex (frontier_nodes h)
                                  @ drop (Suc nodeIndex) (frontier_nodes h),
                            completed_nodes := Some (cs @ [completedNode]) \<rparr>))))"

text \<open>
  The frontier before the difficulty adjustment: the nodes that survive invalidation,
  followed by the continuation task, the research task (when there is a question) and the
  detected opportunities. The result carries the tree with the completed node moved.
\<close>

definition frontierAfterCompletion ::
    "env \<Rightarrow> nat \<Rightarrow> hta \<Rightarrow> block \<Rightarrow> string \<Rightarrow> completion_context \<Rightarrow> js_error + (hta \<times> node list)" where
  "frontierAfterCompletion e k h0 completedBlock nextQuestions completionContext =
     (case moveCompleted e (difficultyRating completionContext) completedBlock h0 of
        Inl err \<Rightarrow> Inl err
      | Inr h \<Rightarrow>
          (let newTasks = [continuationTask (id_source e k) completedBlock]
                 @ (if nextQuestions \<noteq> [] then [researchTask (id_source e (Suc k)) completedBlock nextQuestions] else []);
               k1 = k + length newTasks
           in case completed_nodes h of
                None \<Rightarrow> Inl TypeError
              | Some cs \<Rightarrow>
                  (let completedTask = (if cs = [] then blockRef completedBlock else nodeRef (last cs))
                   in case detectEmergentOpportunities (id_source e) k1 completedTask completionContext of
                        Inl err \<Rightarrow> Inl err
                      | Inr (emergentOpportunities, k2) \<Rightarrow>
                          (case invalidateUnnecessaryTasks (frontier_nodes h) completedTask completionContext of
                             Inl err \<Rightarrow> Inl err
                           | Inr kept \<Rightarrow> Inr (h, kept @ newTasks @ emergentOpportunities)))))"

text \<open>The adjustment of the remaining nodes to the difficulty feedback.\<close>

definition adjustDifficulty :: "int \<Rightarrow> node list \<Rightarrow> node list" where
  "adjustDifficulty rating nodes =
     (if rating = 5
      then map (\<lambda>node. node \<lparr> n_magnitude :=
                  Number (jsMax (Num 3) (jsSub (toNum (n_magnitude node)) (Num 1))) \<rparr>) nodes
      else if rating = 1
      then map (\<lambda>node. node \<lparr> n_magnitude :=
                  Number (jsMin (Num 10) (jsAdd (toNum (n_magnitude node)) (Num 1))) \<rparr>) nodes
      else nodes)"

definition evolveHTABasedOnLearning ::
    "env \<Rightarrow> nat \<Rightarrow> store \<Rightarrow> string \<Rightarrow> block \<Rightarrow> string \<Rightarrow> string \<Rightarrow> completion_context \<Rightarrow> unit outcome" where
  "evolveHTABasedOnLearning e k st projectId completedBlock learned nextQuestions completionContext =
     (case getActiveHTA st projectId of
        None \<Rightarrow> (Inr (), st)
      | Some h0 \<Rightarrow>
          (case frontierAfterCompletion e k h0 completedBlock nextQuestions completionContext of
             Inl err \<Rightarrow> (Inl err, st)
           | Inr (h, remaining) \<Rightarrow>
               (let h' = h \<lparr> frontier_nodes := adjustDifficulty (difficultyRating completionContext) remaining,
                             last_evolution := Some (now_iso e) \<rparr>;
                    activePath = (case asConfig (loadProjectData st projectId ''config.json'') of
                                    None \<Rightarrow> ''general''
                                  | Some projectConfig \<Rightarrow> strOr (active_learning_path projectConfig) ''general'');
                    (saved, st1) = savePathData st projectId activePath ''hta.json'' (FHTA h')
                in if \<not> saved then (Inr (), snd (saveProjectData st1 projectId ''hta.json'' (FHTA h')))
                   else (Inr (), st1))))"

section \<open>Completing a block\<close>

definition notCompleted :: "block \<Rightarrow> bool" where
  "notCompleted b = (case b_completed b of None \<Rightarrow> True | Some s \<Rightarrow> s = [])"

text \<open>
  The index of the block to complete: \<^verbatim>\<open>find\<close> by id, then, if none, by the action title
  compared in lower case.
\<close>

definition findBlockIndex :: "block list \<Rightarrow> string \<Rightarrow> nat option" where
  "findBlockIndex blocks blockId =
     (if list_ex (\<lambda>b. b_id b = blockId) blocks
      then Some (length (takeWhile (\<lambda>b. b_id b \<noteq> blockId) blocks))
      else if list_ex (\<lambda>b. toLowerCase (b_action b) = toLowerCase blockId) blocks
      then Some (length (takeWhile (\<lambda>b. toLowerCase (b_action b) \<noteq> toLowerCase blockId) blocks))
      else None)"

text \<open>
  \<^verbatim>\<open>completeBlock\<close>. The context passed on is built from the arguments and has no
  \<^verbatim>\<open>shorterPathDiscovered\<close> field. The value returned stands for the response text: it is the
  next block not yet completed, which is what the text reports besides the arguments.
  \<^verbatim>\<open>syncActiveProjectToMemory\<close> only reads.
\<close>

definition completeBlock ::
    "env \<Rightarrow> nat \<Rightarrow> store \<Rightarrow> string \<Rightarrow> string \<Rightarrow> string \<Rightarrow> string \<Rightarrow> int \<Rightarrow> completion_context
      \<Rightarrow> block option outcome" where
  "completeBlock e k st blockId outcome learned nextQuestions energyLevel ctx =
     (case requireActiveProject st of
        Inl err \<Rightarrow> (Inl err, st)
      | Inr projectId \<Rightarrow>
     (case asSchedule (loadProjectData st projectId (dayFile (today e))) of
        None \<Rightarrow> (Inl (Error ''No schedule found for today in this project''), st)
      | Some sched \<Rightarrow>
     (case s_time_blocks sched of
        None \<Rightarrow> (Inl TypeError, st)
      | Some blocks \<Rightarrow>
     (case findBlockIndex blocks blockId of
        None \<Rightarrow> (Inl (Error (''Block '' @ blockId @ '' not found'')), st)
      | Some i \<Rightarrow>
     (let blk = (blocks ! i) \<lparr> b_completed := Some (now_iso e), b_outcome := Some outcome,
                   b_learned := Some learned, b_next_questions := Some nextQuestions,
                   b_energy_after := Some energyLevel,
                   b_difficulty_rating := Some (difficultyRating ctx),
                   b_breakthrough := Some (breakthrough ctx) \<rparr>;
          blocks' = blocks[i := blk];
          sched' = sched \<lparr> s_time_blocks := Some blocks', s_completed := s_completed sched + 1 \<rparr>;
          (saved, st1) = saveProjectData st projectId (dayFile (today e)) (FSchedule sched')
      in if \<not> saved then (Inl (Error ''Failed to save schedule update''), st1)
         else
     (let learningHistory = (case asHistory (loadProjectData st1 projectId ''learning_history.json'') of
                               None \<Rightarrow> \<lparr> completed_topics = [], knowledge_gaps = [] \<rparr>
                             | Some lh \<Rightarrow> lh);
          lh1 = learningHistory \<lparr> completed_topics := completed_topics learningHistory @
                   [\<lparr> t_topic = b_action blk, t_date = today e, t_learned = learned,
                      t_difficulty = difficultyRating ctx, t_breakthrough = breakthrough ctx \<rparr>] \<rparr>;
          lh2 = (if nextQuestions \<noteq> []
                 then lh1 \<lparr> knowledge_gaps := knowledge_gaps lh1 @
                        [\<lparr> g_question = nextQuestions, g_discovered = today e,
                           g_from_topic = b_action blk \<rparr>] \<rparr>
                 else lh1);
          st2 = snd (saveProjectData st1 projectId ''learning_history.json'' (FHistory lh2))
      in case asConfig (loadProjectData st2 projectId ''config.json'') of
           None \<Rightarrow> (Inl TypeError, st2)
         | Some projectConfig \<Rightarrow>
     (let pc1 = projectConfig \<lparr> knowledge_level :=
                   Some (min 100 ((case knowledge_level projectConfig of None \<Rightarrow> 0 | Some v \<Rightarrow> v) + 1)) \<rparr>;
          pc2 = (if breakthrough ctx
                 then pc1 \<lparr> breakthroughs :=
                        Some ((case breakthroughs pc1 of None \<Rightarrow> 0 | Some v \<Rightarrow> v) + 1) \<rparr>
                 else pc1);
          st3 = snd (saveProjectData st2 projectId ''config.json'' (FConfig pc2));
          completionContext = ctx \<lparr> shorterPathDiscovered := False \<rparr>
      in case evolveHTABasedOnLearning e k st3 projectId blk learned nextQuestions completionContext of
           (Inl err, st4) \<Rightarrow> (Inl err, st4)
         | (Inr u, st4) \<Rightarrow> (Inr (find notCompleted blocks'), st4))))))))"

section \<open>Durations\<close>

text \<open>
  The three regular expressions of \<^verbatim>\<open>parseTimeAvailable\<close>, each returning what
  \<^verbatim>\<open>str.match\<close> captures at the leftmost match. A run of digits is matched greedily; giving
  digits or white space back never helps, since the next character expected is neither.
\<close>

definition digitsThen :: "string \<Rightarrow> string \<Rightarrow> string option" where
  "digitsThen word s =
     (let ds = takeWhile isDigit s; rest = dropWhile isSpace (dropWhile isDigit s)
      in if ds \<noteq> [] \<and> take (length word) rest = word then Some ds else None)"

text \<open>\<^verbatim>\<open>/(\d+)\s*min/\<close> and \<^verbatim>\<open>/(\d+)\s*hour/\<close>: the digits captured.\<close>

fun matchDigitsWord :: "string \<Rightarrow> string \<Rightarrow> string option" where
  "matchDigitsWord word [] = None"
| "matchDigitsWord word (c # cs) =
     (case digitsThen word (c # cs) of
        Some ds \<Rightarrow> Some ds
      | None \<Rightarrow> matchDigitsWord word cs)"

text \<open>\<^verbatim>\<open>/(\d+)-(\d+)\s*(hour|min)/\<close>: the second number and whether the unit is the hour.\<close>

definition rangeAt :: "string \<Rightarrow> (string \<times> bool) option" where
  "rangeAt s =
     (let ds1 = takeWhile isDigit s; r1 = dropWhile isDigit s
      in if ds1 \<noteq> [] \<and> r1 \<noteq> [] \<and> hd r1 = CHR ''-''
         then (case digitsThen ''hour'' (tl r1) of
                 Some ds2 \<Rightarrow> Some (ds2, True)
               | None \<Rightarrow> (case digitsThen ''min'' (tl r1) of
                            Some ds2 \<Rightarrow> Some (ds2, False)
                          | None \<Rightarrow> None))
         else None)"

fun matchRange :: "string \<Rightarrow> (string \<times> bool) option" where
  "matchRange [] = None"
| "matchRange (c # cs) =
     (case rangeAt (c # cs) of
        Some r \<Rightarrow> Some r
      | None \<Rightarrow> matchRange cs)"

definition parseTimeAvailable :: "string option \<Rightarrow> int" where
  "parseTimeAvailable timeStr =
     (case timeStr of
        None \<Rightarrow> 60
      | Some ts \<Rightarrow>
          if ts = [] then 60
          else
            (let str = toLowerCase ts in
             if str_includes str ''flexible'' \<or> str_includes str ''needed''
                \<or> str_includes str ''natural'' \<or> str_includes str ''stopping''
                \<or> str_includes str ''variable''
             then 120
             else
               (case matchRange str of
                  Some (upper, isHour) \<Rightarrow>
                    (if isHour then int (digitsVal upper) * 60 else int (digitsVal upper))
                | None \<Rightarrow>
                    (case matchDigitsWord ''min'' str of
                       Some m \<Rightarrow> int (digitsVal m)
                     | None \<Rightarrow>
                         (case matchDigitsWord ''hour'' str of
                            Some h \<Rightarrow> int (digitsVal h) * 60
                          | None \<Rightarrow> 60)))))"

section \<open>ScheduleSynthesizer\<close>

text \<open>A 15-minute slot of the day window.\<close>

record slot =
  sl_start :: int
  formatted_time :: string
  available :: bool

definition mealAction :: "nat \<Rightarrow> string" where
  "mealAction index =
     (if index = 0 then ''Lunch'' else if index = 1 then ''Dinner''
      else ''Meal '' @ toString (int index + 1))"

text \<open>
  \<^verbatim>\<open>scheduleFixedLifeStructure\<close>: the \<^verbatim>\<open>forEach\<close> over the meal times, with the index of
  the meal and the count of identifiers drawn. A meal time that parses to \<^verbatim>\<open>NaN\<close> fails
  both comparisons and is skipped.
\<close>

fun placeMeals :: "idgen \<Rightarrow> int \<Rightarrow> int \<Rightarrow> string list \<Rightarrow> nat \<Rightarrow> block list \<times> nat \<Rightarrow> block list \<times> nat" where
  "placeMeals g startTime endTime [] index acc = acc"
| "placeMeals g startTime endTime (mealTime # rest) index (fixedBlocks, k) =
     (case parseTime mealTime of
        NaN \<Rightarrow> placeMeals g startTime endTime rest (Suc index) (fixedBlocks, k)
      | Num mealMinutes \<Rightarrow>
          if mealMinutes \<ge> startTime \<and> mealMinutes \<le> endTime - 30
          then placeMeals g startTime endTime rest (Suc index)
                 (fixedBlocks @ [newBlock \<lparr> b_id := g k, b_type := ''meal'',
                     b_time := formatTime mealMinutes,
                     b_duration := ''30 min'', b_action := mealAction index,
                     b_description := Some ''Nourishment and mental break'', b_fixed := True,
                     b_energy_impact := Some ''restorative'' \<rparr>], Suc k)
          else placeMeals g startTime endTime rest (Suc index) (fixedBlocks, k))"

definition scheduleFixedLifeStructure :: "idgen \<Rightarrow> nat \<Rightarrow> config \<Rightarrow> int \<Rightarrow> int \<Rightarrow> block list \<times> nat" where
  "scheduleFixedLifeStructure g k projectConfig startTime endTime =
     (let mealTimes = (case meal_times projectConfig of
                         None \<Rightarrow> [''12:00 PM'', ''6:00 PM'']
                       | Some ms \<Rightarrow> ms)
      in placeMeals g startTime endTime mealTimes 0 ([], k))"

definition hasFixedBlock :: "block list \<Rightarrow> int \<Rightarrow> bool" where
  "hasFixedBlock fixedBlocks currentTime =
     list_ex (\<lambda>blk.
        (let blockTime = parseTime (b_time blk);
             blockDuration = parseTimeAvailable (Some (b_duration blk))
         in jsGe (Num currentTime) blockTime
            \<and> jsLt (Num currentTime) (jsAdd blockTime (Num blockDuration)))) fixedBlocks"

function createTimeSlots :: "int \<Rightarrow> int \<Rightarrow> block list \<Rightarrow> slot list" where
  "createTimeSlots currentTime endTime fixedBlocks =
     (if currentTime < endTime
      then (if \<not> hasFixedBlock fixedBlocks currentTime
            then [\<lparr> sl_start = currentTime, formatted_time = formatTime currentTime,
                     available = True \<rparr>]
            else [])
           @ createTimeSlots (currentTime + 15) endTime fixedBlocks
      else [])"
  by pat_completeness auto
termination
  by (relation "measure (\<lambda>(currentTime, endTime, fixedBlocks). nat (endTime - currentTime))") auto

declare createTimeSlots.simps [simp del]

definition identifyHighEnergyPeriods :: "config \<Rightarrow> int \<Rightarrow> (jsnum \<times> jsnum) list" where
  "identifyHighEnergyPeriods projectConfig energyLevel =
     [(Num (wake_minutes projectConfig + 60), Num (wake_minutes projectConfig + 180)),
      (parseTime ''2:00 PM'', parseTime ''4:00 PM'')]"

text \<open>
  The slot objects are shared: \<^verbatim>\<open>timeSlots.filter(...)\<close> returns references, and
  \<^verbatim>\<open>slot.available = false\<close> on one of them is seen through \<^verbatim>\<open>timeSlots\<close>. The slots are kept
  in one list and a filtered array is the list of the positions it selects.
\<close>

definition availableSlots :: "slot list \<Rightarrow> nat list" where
  "availableSlots timeSlots = filter (\<lambda>i. available (timeSlots ! i)) [0..<length timeSlots]"

definition markUsed :: "nat \<Rightarrow> slot list \<Rightarrow> slot list" where
  "markUsed i timeSlots = timeSlots[i := (timeSlots ! i) \<lparr> available := False \<rparr>]"

definition learningBlock :: "string \<Rightarrow> int \<Rightarrow> node \<Rightarrow> slot \<Rightarrow> block" where
  "learningBlock energyType focusDuration node sl = newBlock \<lparr>
     b_id := n_id node, b_type := ''learning'', b_time := formatted_time sl,
     b_duration := strOr (n_estimated_time node) (toString focusDuration @ '' min''),
     b_action := n_title node, b_description := n_description node,
     b_strategic_purpose := Some (n_branch_type node), b_energy_type := Some energyType,
     b_learning_outcomes := Some (case n_learning_outcomes node of None \<Rightarrow> [] | Some os \<Rightarrow> os),
     b_magnitude := n_magnitude node \<rparr>"

text \<open>
  One \<^verbatim>\<open>forEach\<close> over slots that hands out the nodes in order: the state is the blocks
  pushed, the slots and the index of the next node.
\<close>

fun placeNodes :: "(node \<Rightarrow> slot \<Rightarrow> block) \<Rightarrow> node list \<Rightarrow> nat list
    \<Rightarrow> block list \<times> slot list \<times> nat \<Rightarrow> block list \<times> slot list \<times> nat" where
  "placeNodes mk nodes [] s = s"
| "placeNodes mk nodes (i # rest) (blocks, timeSlots, nodeIndex) =
     (if nodeIndex < length nodes
      then placeNodes mk nodes rest
             (blocks @ [mk (nodes ! nodeIndex) (timeSlots ! i)], markUsed i timeSlots, Suc nodeIndex)
      else placeNodes mk nodes rest (blocks, timeSlots, nodeIndex))"

text \<open>The outer \<^verbatim>\<open>forEach\<close> over the high-energy periods.\<close>

fun placeInPeriods :: "(node \<Rightarrow> slot \<Rightarrow> block) \<Rightarrow> node list \<Rightarrow> nat list \<Rightarrow> (jsnum \<times> jsnum) list
    \<Rightarrow> block list \<times> slot list \<times> nat \<Rightarrow> block list \<times> slot list \<times> nat" where
  "placeInPeriods mk nodes avail [] s = s"
| "placeInPeriods mk nodes avail ((pstart, pend) # periods) (blocks, timeSlots, nodeIndex) =
     (let periodSlots = filter (\<lambda>i. jsGe (Num (sl_start (timeSlots ! i))) pstart
                                  \<and> jsLe (Num (sl_start (timeSlots ! i))) pend) avail
      in placeInPeriods mk nodes avail periods
           (placeNodes mk nodes periodSlots (blocks, timeSlots, nodeIndex)))"

definition scheduleLearningBlocks ::
    "node list \<Rightarrow> slot list \<Rightarrow> (jsnum \<times> jsnum) list \<Rightarrow> int \<Rightarrow> int \<Rightarrow> block list \<times> slot list" where
  "scheduleLearningBlocks learningNodes timeSlots highEnergyPeriods focusDuration energyLevel =
     (let avail = availableSlots timeSlots;
          challengingNodes = filter (\<lambda>n. jsGe (toNum (n_magnitude n)) (Num 7)) learningNodes;
          easyNodes = filter (\<lambda>n. jsLt (toNum (n_magnitude n)) (Num 7)) learningNodes;
          (blocks1, slots1, nodeIndex) =
             placeInPeriods (learningBlock ''high-focus'' focusDuration) challengingNodes avail
               highEnergyPeriods ([], timeSlots, 0);
          remainingSlots = filter (\<lambda>i. available (slots1 ! i)) avail;
          (blocks2, slots2, easyNodeIndex) =
             placeNodes (learningBlock ''moderate'' focusDuration) easyNodes remainingSlots
               (blocks1, slots1, 0)
      in (blocks2, slots2))"

definition habitBlock :: "habit \<Rightarrow> slot \<Rightarrow> block" where
  "habitBlock hb sl = newBlock \<lparr>
     b_id := h_id hb, b_type := ''habit'', b_time := formatted_time sl, b_duration := ''15 min'',
     b_action := h_title hb, b_description := h_description hb,
     b_habit_type := Some (h_type hb),
     b_tracking_metrics := Some (case h_tracking_metrics hb of None \<Rightarrow> [] | Some ms \<Rightarrow> ms),
     b_success_criteria := h_success_criteria hb \<rparr>"

fun placeHabits :: "int list \<Rightarrow> nat list \<Rightarrow> habit list \<Rightarrow> nat
    \<Rightarrow> block list \<times> slot list \<Rightarrow> block list \<times> slot list" where
  "placeHabits habitTimes avail [] index s = s"
| "placeHabits habitTimes avail (hb # rest) index (habitBlocks, timeSlots) =
     (if index < length habitTimes
      then (case find (\<lambda>i. \<bar>sl_start (timeSlots ! i) - habitTimes ! index\<bar> < 30) avail of
              Some i \<Rightarrow> placeHabits habitTimes avail rest (Suc index)
                          (habitBlocks @ [habitBlock hb (timeSlots ! i)], markUsed i timeSlots)
            | None \<Rightarrow> placeHabits habitTimes avail rest (Suc index) (habitBlocks, timeSlots))
      else placeHabits habitTimes avail rest (Suc index) (habitBlocks, timeSlots))"

definition scheduleHabitBlocks :: "habit list \<Rightarrow> slot list \<Rightarrow> config \<Rightarrow> block list \<times> slot list" where
  "scheduleHabitBlocks habitNodes timeSlots projectConfig =
     (let avail = availableSlots timeSlots;
          morningHabitTime = wake_minutes projectConfig + 30;
          eveningHabitTime = sleep_minutes projectConfig - 60;
          habitTimes = [morningHabitTime, eveningHabitTime]
      in placeHabits habitTimes avail habitNodes 0 ([], timeSlots))"

definition breakBlock :: "string \<Rightarrow> slot \<Rightarrow> block" where
  "breakBlock i sl = newBlock \<lparr>
     b_id := i, b_type := ''break'', b_time := formatted_time sl, b_duration := ''10 min'',
     b_action := ''Restorative Break'',
     b_description := Some ''Rest, stretch, hydrate, or light movement'',
     b_energy_impact := Some ''restorative'' \<rparr>"

definition transitionBlock :: "string \<Rightarrow> int \<Rightarrow> slot \<Rightarrow> block" where
  "transitionBlock i transitionTime sl = newBlock \<lparr>
     b_id := i, b_type := ''transition'', b_time := formatted_time sl,
     b_duration := toString transitionTime @ '' min'',
     b_action := ''Transition & Preparation'',
     b_description := Some ''Prepare for next activity, organize workspace, mindful transition'',
     b_energy_impact := Some ''neutral'' \<rparr>"

text \<open>
  The \<^verbatim>\<open>forEach\<close> that puts a break on every third available slot that has a successor
  in \<^verbatim>\<open>availableSlots\<close>; \<open>index\<close> is the position in that array and \<open>n\<close> its length.
\<close>

fun placeBreaks :: "idgen \<Rightarrow> nat \<Rightarrow> nat list \<Rightarrow> nat
    \<Rightarrow> block list \<times> slot list \<times> nat \<Rightarrow> block list \<times> slot list \<times> nat" where
  "placeBreaks g n [] index s = s"
| "placeBreaks g n (i # rest) index (structureBlocks, timeSlots, k) =
     (if index mod 3 = 0 \<and> Suc index < n
      then placeBreaks g n rest (Suc index)
             (structureBlocks @ [breakBlock (g k) (timeSlots ! i)], markUsed i timeSlots, Suc k)
      else placeBreaks g n rest (Suc index) (structureBlocks, timeSlots, k))"

fun placeTransitions :: "idgen \<Rightarrow> int \<Rightarrow> slot list \<Rightarrow> block list \<times> nat \<Rightarrow> block list \<times> nat" where
  "placeTransitions g transitionTime [] s = s"
| "placeTransitions g transitionTime (sl # rest) (structureBlocks, k) =
     placeTransitions g transitionTime rest
       (structureBlocks @ [transitionBlock (g k) transitionTime sl], Suc k)"

definition scheduleLifeStructure :: "idgen \<Rightarrow> nat \<Rightarrow> slot list \<Rightarrow> config \<Rightarrow> block list \<times> nat" where
  "scheduleLifeStructure g k timeSlots projectConfig =
     (let avail = availableSlots timeSlots;
          transitionTime = parseTimeAvailable (Some (strOr (transition_time projectConfig) ''5 minutes''));
          (breaks, slots1, k1) = placeBreaks g (length avail) avail 0 ([], timeSlots, k);
          remainingSlots = filter available slots1
      in placeTransitions g transitionTime remainingSlots (breaks, k1))"

text \<open>
  \<^verbatim>\<open>array.sort(cmp)\<close>. The sort is stable; for a comparator that orders by a key this is the
  stable sort by that key, computed here by insertion. A comparison that yields \<^verbatim>\<open>NaN\<close>
  counts as equal.
\<close>

fun insertBy :: "('a \<Rightarrow> 'a \<Rightarrow> jsnum) \<Rightarrow> 'a \<Rightarrow> 'a list \<Rightarrow> 'a list" where
  "insertBy cmp x [] = [x]"
| "insertBy cmp x (y # ys) =
     (if jsGt (cmp x y) (Num 0) then y # insertBy cmp x ys else x # y # ys)"

definition sortBy :: "('a \<Rightarrow> 'a \<Rightarrow> jsnum) \<Rightarrow> 'a list \<Rightarrow> 'a list" where
  "sortBy cmp xs = foldr (insertBy cmp) xs []"

definition byTime :: "block \<Rightarrow> block \<Rightarrow> jsnum" where
  "byTime a b = jsSub (parseTime (b_time a)) (parseTime (b_time b))"

text \<open>
  \<^verbatim>\<open>generateComprehensiveSchedule\<close>. The learning history and the available hours are
  parameters that the function does not read.
\<close>

definition generateComprehensiveSchedule ::
    "idgen \<Rightarrow> nat \<Rightarrow> config \<Rightarrow> hta \<Rightarrow> int \<Rightarrow> string \<Rightarrow> schedule" where
  "generateComprehensiveSchedule g k projectConfig h energyLevel focusType =
     (let learningNodes = filter (\<lambda>n. n_status n = ''ready'') (frontier_nodes h);
          habitNodes = (case habit_nodes h of
                          None \<Rightarrow> []
                        | Some hs \<Rightarrow> filter (\<lambda>hb. h_status hb = ''ready'') hs);
          currentTime = wake_minutes projectConfig;
          endTime = (if sleep_minutes projectConfig \<le> currentTime
                     then sleep_minutes projectConfig + 24 * 60
                     else sleep_minutes projectConfig);
          focusDuration = parseTimeAvailable (Some (strOr (focus_duration projectConfig) ''25 minutes''));
          (fixedBlocks, k1) = scheduleFixedLifeStructure g k projectConfig currentTime endTime;
          timeSlots = createTimeSlots currentTime endTime fixedBlocks;
          highEnergyPeriods = identifyHighEnergyPeriods projectConfig energyLevel;
          (learningSchedule, slots1) =
             scheduleLearningBlocks learningNodes timeSlots highEnergyPeriods focusDuration energyLevel;
          (habitSchedule, slots2) = scheduleHabitBlocks habitNodes slots1 projectConfig;
          (structureSchedule, k2) = scheduleLifeStructure g k1 slots2 projectConfig;
          allBlocks = fixedBlocks @ learningSchedule @ habitSchedule @ structureSchedule;
          sorted_blocks = sortBy byTime allBlocks
      in \<lparr> s_project_id = None, s_date = None, s_north_star = north_star h,
           s_time_blocks = Some sorted_blocks, s_total_blocks = int (length sorted_blocks),
           s_completed = 0, s_energy_level = energyLevel, s_focus_type = focusType,
           s_created = None \<rparr>)"


section \<open>SequenceEngine: selecting the next task\<close>

text \<open>\<^verbatim>\<open>isTaskRelevantToPath\<close>; its last test repeats the one on the title.\<close>

definition isTaskRelevantToPath :: "node \<Rightarrow> string \<Rightarrow> bool" where
  "isTaskRelevantToPath task pathName =
     (let pathLower = toLowerCase pathName in
      n_path_focus task = Some pathName
      \<or> str_includes (toLowerCase (n_title task)) pathLower
      \<or> (case n_description task of None \<Rightarrow> False
          | Some d \<Rightarrow> str_includes (toLowerCase d) pathLower)
      \<or> n_branch_type task = pathLower
      \<or> (case n_learning_outcomes task of None \<Rightarrow> False
          | Some os \<Rightarrow> list_ex (\<lambda>outcome. str_includes (toLowerCase outcome) pathLower) os)
      \<or> (n_interest_based task \<and> str_includes (toLowerCase (n_title task)) pathLower))"

text \<open>
  The test of one prerequisite entry: the id of a completed node, else the title of a
  completed node, else the topic of an entry of the learning history.
\<close>

definition prereqMet :: "string list \<Rightarrow> string list \<Rightarrow> history \<Rightarrow> string \<Rightarrow> bool" where
  "prereqMet completedTaskIds completedTaskTitles learningHistory prereq =
     (if prereq \<in> set completedTaskIds then True
      else if prereq \<in> set completedTaskTitles then True
      else list_ex (\<lambda>topic. t_topic topic = prereq) (completed_topics learningHistory))"

text \<open>The callback of the filter that computes \<^verbatim>\<open>readyNodes\<close>.\<close>

definition isReadyNode :: "config \<Rightarrow> string list \<Rightarrow> string list \<Rightarrow> history \<Rightarrow> node \<Rightarrow> bool" where
  "isReadyNode projectConfig completedTaskIds completedTaskTitles learningHistory node =
     (if n_status node \<noteq> ''ready'' then False
      else if (case n_prerequisites node of None \<Rightarrow> False | Some ps \<Rightarrow> ps \<noteq> [])
              \<and> \<not> list_all (prereqMet completedTaskIds completedTaskTitles learningHistory)
                    (case n_prerequisites node of None \<Rightarrow> [] | Some ps \<Rightarrow> ps)
      then False
      else (case active_learning_path projectConfig of
              None \<Rightarrow> True
            | Some activePath \<Rightarrow>
                if activePath = [] then True else isTaskRelevantToPath node activePath))"

text \<open>\<^verbatim>\<open>generateAdaptiveTasks\<close>: the new tasks, in the order they are pushed.\<close>

definition adaptiveTasks :: "idgen \<Rightarrow> nat \<Rightarrow> config \<Rightarrow> history \<Rightarrow> string \<Rightarrow> node list" where
  "adaptiveTasks g k projectConfig learningHistory contextFromMemory =
     (let completedTopics = map t_topic (completed_topics learningHistory);
          knowledgeLevel = (case knowledge_level projectConfig of None \<Rightarrow> 0 | Some v \<Rightarrow> v);
          focusDuration = parseTimeAvailable (Some (strOr (focus_duration projectConfig) ''25 minutes''));
          micro = (if focusDuration \<le> 10
            then [newNode \<lparr> n_id := g k,
                     n_title := ''Quick Review: '' @ goal projectConfig,
                     n_description := Some (''Spend '' @ toString focusDuration
                        @ '' minutes reviewing recent progress''),
                     n_branch_type := ''micro-review'',
                     n_estimated_time := Some (toString focusDuration @ '' minutes''),
                     n_priority := ''medium'', n_status := ''ready'',
                     n_knowledge_level := Some ''any'', n_magnitude := Number (Num 3),
                     n_prerequisites := Some [],
                     n_learning_outcomes := Some [''Refresh memory'', ''Maintain momentum'',
                        ''Low cognitive load''] \<rparr>,
                  newNode \<lparr> n_id := g (Suc k),
                     n_title := ''Micro-Learning: One Concept'',
                     n_description := Some (''Focus on understanding just one small concept for ''
                        @ toString focusDuration @ '' minutes''),
                     n_branch_type := ''micro-concept'',
                     n_estimated_time := Some (toString focusDuration @ '' minutes''),
                     n_priority := ''high'', n_status := ''ready'',
                     n_knowledge_level := Some ''beginner'', n_magnitude := Number (Num 4),
                     n_prerequisites := Some [],
                     n_learning_outcomes := Some [''Learn one new thing'',
                        ''Build understanding slowly'', ''Prevent overwhelm''] \<rparr>]
            else []);
          k1 = k + length micro;
          intermediate = (if length completedTopics \<ge> 3 \<and> knowledgeLevel \<ge> 20
            then [newNode \<lparr> n_id := g k1,
                     n_title := ''Intermediate Practice: '' @ goal projectConfig,
                     n_description := Some ''Apply what you've learned so far in a practical exercise'',
                     n_branch_type := ''practical'',
                     n_estimated_time := Some ''45 minutes'',
                     n_priority := ''high'', n_status := ''ready'',
                     n_knowledge_level := Some ''intermediate'', n_magnitude := Number (Num 6),
                     n_prerequisites := Some (drop (length completedTopics - 2) completedTopics),
                     n_learning_outcomes := Some [''Apply knowledge practically'',
                        ''Identify skill gaps'', ''Build confidence''] \<rparr>]
            else []);
          k2 = k1 + length intermediate;
          reflection = (if length completedTopics \<ge> 2 \<and> length completedTopics mod 3 = 0
            then [newNode \<lparr> n_id := g k2,
                     n_title := ''Learning Reflection & Planning'',
                     n_description := Some ''Reflect on progress and identify next learning priorities'',
                     n_branch_type := ''reflection'',
                     n_estimated_time := Some ''20 minutes'',
                     n_priority := ''medium'', n_status := ''ready'',
                     n_knowledge_level := Some ''beginner'', n_magnitude := Number (Num 4),
                     n_prerequisites := Some [],
                     n_learning_outcomes := Some [''Assess current understanding'',
                        ''Identify knowledge gaps'', ''Plan next steps''] \<rparr>]
            else []);
          k3 = k2 + length reflection;
          fromMemory = (if contextFromMemory \<noteq> [] \<and> knowledge_gaps learningHistory \<noteq> []
            then (let recentGap = last (knowledge_gaps learningHistory) in
                  [newNode \<lparr> n_id := g k3,
                     n_title := ''Explore: '' @ take 50 (g_question recentGap) @ ''...'',
                     n_description := Some (''Research and answer: '' @ g_question recentGap),
                     n_branch_type := ''research'',
                     n_estimated_time := Some ''35 minutes'',
                     n_priority := ''high'', n_status := ''ready'',
                     n_knowledge_level := Some ''intermediate'', n_magnitude := Number (Num 6),
                     n_prerequisites := Some [g_from_topic recentGap],
                     n_learning_outcomes := Some [''Answer: '' @ g_question recentGap,
                        ''Fill knowledge gap'', ''Advance understanding''] \<rparr>])
            else [])
      in micro @ intermediate @ reflection @ fromMemory)"

text \<open>
  \<^verbatim>\<open>generateAdaptiveTasks\<close> reads the project-wide tree and writes it back when it has new
  tasks; the result of the save is not looked at. It is called with a configuration that
  loads (the caller has read it before).
\<close>

definition generateAdaptiveTasks ::
    "env \<Rightarrow> nat \<Rightarrow> store \<Rightarrow> string \<Rightarrow> history \<Rightarrow> string \<Rightarrow> (js_error + nat) \<times> store" where
  "generateAdaptiveTasks e k st projectId learningHistory contextFromMemory =
     (case asHTA (loadProjectData st projectId ''hta.json'') of
        None \<Rightarrow> (Inr k, st)
      | Some h \<Rightarrow>
          (case asConfig (loadProjectData st projectId ''config.json'') of
             None \<Rightarrow> (Inl TypeError, st)
           | Some projectConfig \<Rightarrow>
               (let newTasks = adaptiveTasks (id_source e) k projectConfig learningHistory contextFromMemory
                in if newTasks \<noteq> []
                   then (Inr (k + length newTasks),
                         snd (saveProjectData st projectId ''hta.json''
                           (FHTA (h \<lparr> frontier_nodes := frontier_nodes h @ newTasks,
                                       last_evolution := Some (now_iso e) \<rparr>))))
                   else (Inr k, st))))"

text \<open>
  \<^verbatim>\<open>generateSmartNextTasks\<close>: one task built on the last completed topic, one per interest,
  cut to the first three. The identifiers of all of them are drawn.
\<close>

fun interestTasks :: "idgen \<Rightarrow> nat \<Rightarrow> string list \<Rightarrow> node list" where
  "interestTasks g k [] = []"
| "interestTasks g k (interest # rest) =
     newNode \<lparr> n_id := g k,
        n_title := ''Progress Toward: '' @ interest,
        n_description := Some (''Continue working toward your goal: '' @ interest),
        n_branch_type := ''interest_driven'',
        n_estimated_time := Some ''As long as needed'',
        n_priority := ''critical'', n_status := ''ready'',
        n_knowledge_level := Some ''beginner'', n_magnitude := Number (Num 6),
        n_prerequisites := Some [],
        n_learning_outcomes := Some [''Make progress on '' @ interest, ''Maintain motivation'',
           ''Build practical skills''],
        n_interest_based := True,
        n_generated_from := Some ''interest_continuation'' \<rparr>
     # interestTasks g (Suc k) rest"

definition generateSmartNextTasks :: "idgen \<Rightarrow> nat \<Rightarrow> config \<Rightarrow> history \<Rightarrow> node list" where
  "generateSmartNextTasks g k projectConfig learningHistory =
     (let interests = (case specific_interests projectConfig of None \<Rightarrow> [] | Some is \<Rightarrow> is);
          recentCompletions = drop (length (completed_topics learningHistory) - 3)
                                (completed_topics learningHistory);
          buildOn = (if recentCompletions \<noteq> []
            then (let lastTopic = last recentCompletions in
                  [newNode \<lparr> n_id := g k,
                     n_title := ''Build On: '' @ t_topic lastTopic,
                     n_description := Some (''Apply and extend what you learned from: ''
                        @ t_topic lastTopic),
                     n_branch_type := ''practical'',
                     n_estimated_time := Some ''As long as needed'',
                     n_priority := ''high'', n_status := ''ready'',
                     n_knowledge_level := Some ''intermediate'', n_magnitude := Number (Num 6),
                     n_prerequisites := Some [],
                     n_learning_outcomes := Some [''Apply '' @ t_topic lastTopic @ '' knowledge'',
                        ''Deepen understanding'', ''Build confidence''],
                     n_generated_from := Some ''recent_completion'' \<rparr>])
            else [])
      in take 3 (buildOn @ interestTasks g (k + length buildOn) interests))"

text \<open>The score that \<^verbatim>\<open>selectOptimalTask\<close> gives a node.\<close>

definition taskScore :: "string \<Rightarrow> node \<Rightarrow> js_error + int" where
  "taskScore contextFromMemory node =
     (let s1 = (if n_path_priority node = Some True then 500 else 0);
          s2 = (if n_branch_type node = ''interest_driven'' \<or> n_interest_based node then 300
                else if n_branch_type node = ''exploration'' \<or> n_branch_type node = ''sampling'' then 250
                else if n_branch_type node = ''fundamentals'' then 200
                else if n_branch_type node = ''tools'' then 150
                else if n_branch_type node = ''practical'' then 100
                else if n_branch_type node = ''research'' then 25
                else 0);
          s3 = (if n_priority node = ''critical'' then 50
                else if n_priority node = ''high'' then 35
                else if n_priority node = ''medium'' then 20
                else 0);
          s4 = (if (case n_prerequisites node of None \<Rightarrow> True | Some ps \<Rightarrow> ps = []) then - 25 else 0);
          s6 = (if parseTimeAvailable (n_estimated_time node) \<le> 30 then 5 else 0)
      in if contextFromMemory \<noteq> []
         then (case n_description node of
                 None \<Rightarrow> Inl TypeError
               | Some d \<Rightarrow>
                   Inr (s1 + s2 + s3 + s4
                        + (if str_includes (toLowerCase d) (toLowerCase contextFromMemory) then 15 else 0)
                        + s6))
         else Inr (s1 + s2 + s3 + s4 + s6))"

fun mapE :: "('a \<Rightarrow> js_error + 'b) \<Rightarrow> 'a list \<Rightarrow> js_error + 'b list" where
  "mapE f [] = Inr []"
| "mapE f (x # xs) =
     (case f x of
        Inl e \<Rightarrow> Inl e
      | Inr y \<Rightarrow> (case mapE f xs of Inl e \<Rightarrow> Inl e | Inr ys \<Rightarrow> Inr (y # ys)))"

text \<open>
  \<^verbatim>\<open>selectOptimalTask\<close>: the first node after the stable sort by descending score
  (\<^verbatim>\<open>undefined\<close> for no nodes).
\<close>

definition selectOptimalTask :: "node list \<Rightarrow> history \<Rightarrow> string \<Rightarrow> js_error + node option" where
  "selectOptimalTask nodes learningHistory contextFromMemory =
     (case mapE (\<lambda>node. case taskScore contextFromMemory node of
                            Inl e \<Rightarrow> Inl e
                          | Inr score \<Rightarrow> Inr (node, score)) nodes of
        Inl e \<Rightarrow> Inl e
      | Inr scoredNodes \<Rightarrow>
          (case sortBy (\<lambda>a b. Num (snd b - snd a)) scoredNodes of
             [] \<Rightarrow> Inr None
           | best # _ \<Rightarrow> Inr (Some (fst best))))"

text \<open>
  The candidates of \<^verbatim>\<open>getNextTask\<close>: the ready nodes of the tree, or, when there are none,
  what the two fall-backs produce (adaptive tasks, then continuation tasks); the empty list
  when the sequence is stuck.
\<close>

definition nextTaskCandidates ::
    "env \<Rightarrow> nat \<Rightarrow> store \<Rightarrow> string \<Rightarrow> config \<Rightarrow> hta \<Rightarrow> history \<Rightarrow> string \<Rightarrow> node list outcome" where
  "nextTaskCandidates e k st projectId projectConfig h learningHistory contextFromMemory =
     (let completedTaskIds = (case completed_nodes h of None \<Rightarrow> [] | Some cs \<Rightarrow> map n_id cs);
          completedTaskTitles = (case completed_nodes h of None \<Rightarrow> [] | Some cs \<Rightarrow> map n_title cs);
          readyNodes = filter (isReadyNode projectConfig completedTaskIds completedTaskTitles learningHistory)
                         (frontier_nodes h)
      in if readyNodes \<noteq> [] then (Inr readyNodes, st)
         else
           (case generateAdaptiveTasks e k st projectId learningHistory contextFromMemory of
              (Inl err, st1) \<Rightarrow> (Inl err, st1)
            | (Inr k1, st1) \<Rightarrow>
                (case asHTA (loadProjectData st1 projectId ''hta.json'') of
                   None \<Rightarrow> (Inl TypeError, st1)
                 | Some updatedHTA \<Rightarrow>
                     (let newReadyNodes = filter (\<lambda>n. n_status n = ''ready'') (frontier_nodes updatedHTA)
                      in if newReadyNodes \<noteq> [] then (Inr newReadyNodes, st1)
                         else
                           (let continuationTasks = generateSmartNextTasks (id_source e) k1 projectConfig learningHistory
                            in if continuationTasks \<noteq> []
                               then (Inr continuationTasks,
                                     snd (saveProjectData st1 projectId ''hta.json''
                                       (FHTA (updatedHTA \<lparr> frontier_nodes :=
                                                 frontier_nodes updatedHTA @ continuationTasks \<rparr>))))
                               else (Inr [], st1))))))"

definition energyRequired :: "node \<Rightarrow> int" where
  "energyRequired node =
     (if jsGt (toNum (n_magnitude node)) (Num 7) then 4
      else if jsGt (toNum (n_magnitude node)) (Num 5) then 3 else 2)"

text \<open>
  The block that \<^verbatim>\<open>getNextTask\<close> adds to the day's schedule for the selected task, and the
  schedule it starts from when the day has none.
\<close>

definition trackingBlock :: "env \<Rightarrow> node \<Rightarrow> block" where
  "trackingBlock e nextTask = newBlock \<lparr>
     b_id := n_id nextTask,
     b_time := formatTime (clock_minutes e),
     b_duration := strOr (n_estimated_time nextTask) ''30 min'',
     b_action := n_title nextTask,
     b_description := n_description nextTask,
     b_type := ''learning'',
     b_strategic_purpose := Some (n_branch_type nextTask),
     b_hta_connected := True \<rparr>"

definition freshSchedule :: "env \<Rightarrow> string \<Rightarrow> hta \<Rightarrow> int \<Rightarrow> schedule" where
  "freshSchedule e projectId h energyLevel =
     \<lparr> s_project_id = Some projectId, s_date = Some (today e), s_north_star = north_star h,
       s_time_blocks = Some [], s_total_blocks = 0, s_completed = 0,
       s_energy_level = energyLevel, s_focus_type = ''mixed'', s_created = Some (now_iso e) \<rparr>"

definition ensureInSchedule :: "env \<Rightarrow> store \<Rightarrow> string \<Rightarrow> hta \<Rightarrow> int \<Rightarrow> node \<Rightarrow> store" where
  "ensureInSchedule e st projectId h energyLevel nextTask =
     (let sched = (case asSchedule (loadProjectData st projectId (dayFile (today e))) of
                     None \<Rightarrow> freshSchedule e projectId h energyLevel
                   | Some s \<Rightarrow> s);
          blocks = (case s_time_blocks sched of None \<Rightarrow> [] | Some bs \<Rightarrow> bs);
          existsInSchedule = list_ex (\<lambda>b. b_id b = n_id nextTask) blocks
      in if \<not> existsInSchedule
         then (let blocks' = blocks @ [trackingBlock e nextTask] in
               snd (saveProjectData st projectId (dayFile (today e))
                      (FSchedule (sched \<lparr> s_time_blocks := Some blocks',
                                          s_total_blocks := int (length blocks') \<rparr>))))
         else st)"

text \<open>
  \<^verbatim>\<open>getNextTask\<close>. The result is the selected task, or nothing when the sequence is stuck
  (the advisory text); the response text itself is built from the selected task.
\<close>

definition getNextTask :: "env \<Rightarrow> nat \<Rightarrow> store \<Rightarrow> string \<Rightarrow> int \<Rightarrow> string \<Rightarrow> node option outcome" where
  "getNextTask e k st contextFromMemory energyLevel timeAvailable =
     (case requireActiveProject st of
        Inl err \<Rightarrow> (Inl err, st)
      | Inr projectId \<Rightarrow>
     (case asConfig (loadProjectData st projectId ''config.json'') of
        None \<Rightarrow> (Inl TypeError, st)
      | Some projectConfig \<Rightarrow>
     (let activePath = strOr (active_learning_path projectConfig) ''general'';
          htaFile = (case asHTA (loadPathData st projectId activePath ''hta.json'') of
                       Some h \<Rightarrow> Some h
                     | None \<Rightarrow> asHTA (loadProjectData st projectId ''hta.json''));
          learningHistory =
            (case asHistory (loadPathData st projectId activePath ''learning_history.json'') of
               Some lh \<Rightarrow> lh
             | None \<Rightarrow>
                 (case asHistory (loadProjectData st projectId ''learning_history.json'') of
                    Some lh \<Rightarrow> lh
                  | None \<Rightarrow> \<lparr> completed_topics = [], knowledge_gaps = [] \<rparr>))
      in case htaFile of
           None \<Rightarrow> (Inl (Error ''No HTA tree found for this project/path. Use build_hta_tree first.''), st)
         | Some h \<Rightarrow>
     (case nextTaskCandidates e k st projectId projectConfig h learningHistory contextFromMemory of
        (Inl err, st1) \<Rightarrow> (Inl err, st1)
      | (Inr readyNodes, st1) \<Rightarrow>
          if readyNodes = [] then (Inr None, st1)
          else
     (let timeInMinutes = parseTimeAvailable (Some timeAvailable);
          suitable = filter (\<lambda>node. parseTimeAvailable (n_estimated_time node) \<le> timeInMinutes
                                    \<and> energyRequired node \<le> energyLevel) readyNodes;
          suitableNodes = (if suitable = []
                           then take 1 (sortBy (\<lambda>a b. jsSub (toNum (n_magnitude a)) (toNum (n_magnitude b)))
                                          readyNodes)
                           else suitable)
      in case selectOptimalTask suitableNodes learningHistory contextFromMemory of
           Inl err \<Rightarrow> (Inl err, st1)
         | Inr None \<Rightarrow> (Inl TypeError, st1)
         | Inr (Some nextTask) \<Rightarrow>
             (case n_learning_outcomes nextTask of
                None \<Rightarrow> (Inl TypeError, st1)
              | Some outcomes \<Rightarrow>
                  (Inr (Some nextTask), ensureInSchedule e st1 projectId h energyLevel nextTask)))))))"

section \<open>Auxiliary notions for the schedule proofs\<close>

text \<open>The start times, as formatted, of all slots, of the used ones and of the free ones.\<close>

definition allTimes :: "slot list \<Rightarrow> string set" where
  "allTimes ss = formatted_time ` set ss"

definition usedTimes :: "slot list \<Rightarrow> string set" where
  "usedTimes ss = formatted_time ` {s \<in> set ss. \<not> available s}"

definition freeTimes :: "slot list \<Rightarrow> string set" where
  "freeTimes ss = formatted_time ` {s \<in> set ss. available s}"

text \<open>The invariant of a placing loop from state \<open>(bs, ss)\<close> to \<open>(bs', ss')\<close>.\<close>

definition placed :: "block list \<Rightarrow> slot list \<Rightarrow> block list \<Rightarrow> slot list \<Rightarrow> bool" where
  "placed bs ss bs' ss' =
     (length ss' = length ss \<and> allTimes ss' = allTimes ss
      \<and> (\<exists>new. bs' = bs @ new \<and> usedTimes ss' = usedTimes ss \<union> b_time ` set new))"

section \<open>A concrete project\<close>

text \<open>
  A small project \<^verbatim>\<open>p\<close> used to run the operations: two frontier nodes, the second waiting
  for the first, and a schedule for the day that holds a block for the first node.
\<close>

definition exEnv :: env where
  "exEnv = \<lparr> now_iso = ''2025-01-01T09:00:00.000Z'', today = ''2025-01-01'',
     clock_minutes = 540, id_source = (\<lambda>k. ''gen'' @ showNat k) \<rparr>"

definition exNode1 :: node where
  "exNode1 = newNode \<lparr> n_id := ''n1'', n_title := ''Learn scales'',
     n_description := Some ''Practice the major scales'', n_branch_type := ''fundamentals'',
     n_estimated_time := Some ''25 minutes'', n_priority := ''high'', n_status := ''ready'',
     n_magnitude := Number (Num 6), n_prerequisites := Some [],
     n_learning_outcomes := Some [''Know the major scales''] \<rparr>"

definition exNode2 :: node where
  "exNode2 = newNode \<lparr> n_id := ''n2'', n_title := ''Play a first song'',
     n_description := Some ''Play a simple song with both hands'', n_branch_type := ''practical'',
     n_estimated_time := Some ''30 minutes'', n_priority := ''medium'', n_status := ''ready'',
     n_magnitude := Number (Num 3), n_prerequisites := Some [''n1''],
     n_learning_outcomes := Some [''Play one song''] \<rparr>"

definition exHTA :: hta where
  "exHTA = \<lparr> north_star = ''Play the piano'', frontier_nodes = [exNode1, exNode2],
     completed_nodes = Some [], habit_nodes = Some [], last_evolution = None \<rparr>"

definition exConfig :: config where
  "exConfig = \<lparr> goal = ''Play the piano'', wake_minutes = 480, sleep_minutes = 540,
     meal_times = Some [], focus_duration = Some ''flexible'', transition_time = Some ''5 minutes'',
     active_learning_path = None, specific_interests = Some [], knowledge_level = Some 0,
     breakthroughs = Some 0 \<rparr>"

definition exBlock :: block where
  "exBlock = newBlock \<lparr> b_id := ''n1'', b_type := ''learning'', b_time := ''9:00 AM'',
     b_duration := ''25 minutes'', b_action := ''Learn scales'',
     b_description := Some ''Practice the major scales'',
     b_strategic_purpose := Some ''fundamentals'', b_magnitude := Number (Num 6) \<rparr>"

definition exSchedule :: schedule where
  "exSchedule = \<lparr> s_project_id = Some ''p'', s_date = Some ''2025-01-01'',
     s_north_star = ''Play the piano'', s_time_blocks = Some [exBlock], s_total_blocks = 1,
     s_completed = 0, s_energy_level = 3, s_focus_type = ''mixed'',
     s_created = Some ''2025-01-01T08:00:00.000Z'' \<rparr>"

definition exFiles :: "file_key \<rightharpoonup> fdata" where
  "exFiles = [GlobalFile ''config.json'' \<mapsto> FGlobal \<lparr> projects = [''p''], active_project = Some ''p'' \<rparr>,
     ProjectFile ''p'' ''config.json'' \<mapsto> FConfig exConfig,
     ProjectFile ''p'' ''hta.json'' \<mapsto> FHTA exHTA,
     ProjectFile ''p'' ''day_2025-01-01.json'' \<mapsto> FSchedule exSchedule]"

definition exContext :: completion_context where
  "exContext = \<lparr> engagementLevel = 5, unexpectedResults = [], newSkillsRevealed = [],
     externalFeedback = [], socialReactions = [], viralPotential = False,
     industryConnections = [], serendipitousEvents = [], difficultyRating = 5,
     breakthrough = False, shorterPathDiscovered = False \<rparr>"

text \<open>The same project on a disk where four of its files cannot be written.\<close>

definition badStore :: store where
  "badStore = \<lparr> files = exFiles, unwritable = {ProjectFile ''p'' ''learning_history.json'',
     ProjectFile ''p'' ''config.json'', ProjectFile ''p'' ''hta.json'',
     PathFile ''p'' ''general'' ''hta.json''} \<rparr>"

text \<open>The concrete project with wake time equal to sleep time and the default meals.\<close>

definition exConfig24 :: config where
  "exConfig24 = exConfig \<lparr> sleep_minutes := 480, meal_times := None \<rparr>"

text \<open>
  The project with nothing completed, whose only frontier node waits for a node \<^verbatim>\<open>n1\<close>
  that no completed node and no topic of the history provides.
\<close>

definition blockedStore :: store where
  "blockedStore = \<lparr> files = [GlobalFile ''config.json'' \<mapsto> FGlobal \<lparr> projects = [''p''], active_project = Some ''p'' \<rparr>,
       ProjectFile ''p'' ''config.json'' \<mapsto> FConfig exConfig,
       ProjectFile ''p'' ''hta.json'' \<mapsto> FHTA (exHTA \<lparr> frontier_nodes := [exNode2] \<rparr>)],
     unwritable = {} \<rparr>"

text \<open>The project before any schedule exists for the day.\<close>

definition noDayStore :: store where
  "noDayStore = \<lparr> files = [GlobalFile ''config.json'' \<mapsto> FGlobal \<lparr> projects = [''p''], active_project = Some ''p'' \<rparr>,
       ProjectFile ''p'' ''config.json'' \<mapsto> FConfig exConfig,
       ProjectFile ''p'' ''hta.json'' \<mapsto> FHTA exHTA],
     unwritable = {} \<rparr>"

text \<open>
  The project on a day whose schedule also holds a habit block; like every habit, break,
  transition and meal block it has no magnitude. And two completion contexts: one with
  engagement 9 and difficulty rating 5, and the one with two unexpected results, one revealed
  skill and one positive feedback entry.
\<close>

definition exHabitBlock :: block where
  "exHabitBlock = newBlock \<lparr> b_id := ''h1'', b_type := ''habit'', b_time := ''8:30 AM'',
     b_duration := ''15 min'', b_action := ''Morning stretch'',
     b_description := Some ''Stretch for a few minutes'', b_habit_type := Some ''daily'',
     b_tracking_metrics := Some [] \<rparr>"

definition habitStore :: store where
  "habitStore = \<lparr> files = exFiles(ProjectFile ''p'' ''day_2025-01-01.json'' \<mapsto>
       FSchedule (exSchedule \<lparr> s_time_blocks := Some [exBlock, exHabitBlock], s_total_blocks := 2 \<rparr>)),
     unwritable = {} \<rparr>"

text \<open>The habit block as \<^verbatim>\<open>completeBlock\<close> hands it to the evolution of the tree.\<close>

definition exHabitDone :: block where
  "exHabitDone = exHabitBlock \<lparr> b_completed := Some (now_iso exEnv), b_outcome := Some ''done'',
     b_learned := Some ''felt great'', b_next_questions := Some [], b_energy_after := Some 4,
     b_difficulty_rating := Some 5, b_breakthrough := Some False \<rparr>"

definition keenContext :: completion_context where
  "keenContext = exContext \<lparr> engagementLevel := 9 \<rparr>"

definition richContext :: completion_context where
  "richContext = \<lparr> engagementLevel = 9, unexpectedResults = [''X'', ''Y''],
     newSkillsRevealed = [''Z''],
     externalFeedback = [FbObject (Some ''Ann'') (Some ''well done'') (Some ''positive'')],
     socialReactions = [], viralPotential = False, industryConnections = [],
     serendipitousEvents = [], difficultyRating = 3, breakthrough = False,
     shorterPathDiscovered = False \<rparr>"

section \<open>Properties of the time conversion\<close>

subsection \<open>Decimal rendering and reading\<close>

lemma isDigit_digitChar: "n < 10 \<Longrightarrow> isDigit (digitChar n)"
  by (simp add: isDigit_def digitChar_def)

lemma digitVal_digitChar: "n < 10 \<Longrightarrow> digitVal (digitChar n) = n"
  by (simp add: digitVal_def digitChar_def)

lemma showNat_digits: "list_all isDigit (showNat n)"
proof (induction n rule: showNat.induct)
  case (1 n)
  show ?case
  proof (cases "n < 10")
    case True
    then show ?thesis by (subst showNat.simps) (simp add: isDigit_digitChar)
  next
    case False
    with 1 show ?thesis by (subst showNat.simps) (simp add: isDigit_digitChar)
  qed
qed

lemma showNat_nonempty: "showNat n \<noteq> []"
  by (subst showNat.simps) simp

lemma digitsVal_snoc: "digitsVal (xs @ [c]) = 10 * digitsVal xs + digitVal c"
  by (simp add: digitsVal_def)

lemma digitsVal_showNat: "digitsVal (showNat n) = n"
proof (induction n rule: showNat.induct)
  case (1 n)
  show ?case
  proof (cases "n < 10")
    case True
    then show ?thesis by (subst showNat.simps) (simp add: digitsVal_def digitVal_digitChar)
  next
    case False
    with 1 show ?thesis
      by (subst showNat.simps) (simp add: digitsVal_snoc digitVal_digitChar)
  qed
qed

lemma isDigit_not_space: "isDigit c \<Longrightarrow> \<not> isSpace c"
  by (auto simp: isDigit_def isSpace_def)

lemma trim_id: "s \<noteq> [] \<Longrightarrow> \<not> isSpace (hd s) \<Longrightarrow> \<not> isSpace (last s) \<Longrightarrow> trim s = s"
proof -
  assume a: "s \<noteq> []" "\<not> isSpace (hd s)" "\<not> isSpace (last s)"
  have dw: "\<And>xs. xs \<noteq> [] \<Longrightarrow> \<not> isSpace (hd xs) \<Longrightarrow> dropWhile isSpace xs = xs"
    by (case_tac xs) auto
  from a have "dropWhile isSpace s = s" by (intro dw) auto
  moreover from a have "dropWhile isSpace (rev s) = rev s"
    by (intro dw) (auto simp: hd_rev)
  ultimately show ?thesis by (simp add: trim_def)
qed

lemma digits_trim: "list_all isDigit s \<Longrightarrow> trim s = s"
proof (cases "s = []")
  case True then show ?thesis by (simp add: trim_def)
next
  case False
  assume a: "list_all isDigit s"
  from False a have "isDigit (hd s)" "isDigit (last s)"
    by (auto simp: list_all_iff)
  with False show ?thesis by (simp add: trim_id isDigit_not_space)
qed

lemma Number_js_digits: "s \<noteq> [] \<Longrightarrow> list_all isDigit s \<Longrightarrow> Number_js s = Num (int (digitsVal s))"
  by (simp add: Number_js_def digits_trim)

lemma splitOn_none: "c \<notin> set xs \<Longrightarrow> splitOn c xs = [xs]"
  by (induction xs) auto

lemma splitOn_first: "c \<notin> set xs \<Longrightarrow> splitOn c (xs @ c # ys) = xs # splitOn c ys"
  by (induction xs) auto

lemma hasAmPm_append: "hasAmPm ys \<Longrightarrow> hasAmPm (xs @ ys)"
proof (induction xs)
  case Nil then show ?case by simp
next
  case (Cons x xs)
  then have h: "hasAmPm (xs @ ys)" by simp
  then show ?case by (cases "xs @ ys") auto
qed

lemma digits_no_sep: "list_all isDigit s \<Longrightarrow> CHR '':'' \<notin> set s \<and> CHR '' '' \<notin> set s"
  by (auto simp: list_all_iff isDigit_def)

lemma jsRem_nonneg: "0 \<le> a \<Longrightarrow> 0 < b \<Longrightarrow> jsRem a b = a mod b"
  by (cases "a = 0") (simp_all add: jsRem_def)

lemma digitsVal_zero_pad: "digitsVal (replicate k (CHR ''0'') @ s) = digitsVal s"
  by (induction k) (simp_all add: digitsVal_def digitVal_def)

lemma pad_digits: "list_all isDigit s \<Longrightarrow> list_all isDigit (padStart n (CHR ''0'') s)"
  by (auto simp: padStart_def isDigit_def list_all_iff)

lemma toString_nonneg: "0 \<le> i \<Longrightarrow> toString i = showNat (nat i)"
  by (simp add: toString_def)

lemma parseTime_try_12h:
  assumes H: "H \<noteq> []" "list_all isDigit H"
    and M: "M \<noteq> []" "list_all isDigit M"
    and P: "P = ''AM'' \<or> P = ''PM''"
  shows "parseTime_try (H @ '':'' @ M @ '' '' @ P) =
           Inr (jsAdd (jsMul
             (if P = ''PM'' \<and> digitsVal H \<noteq> 12 then Num (int (digitsVal H) + 12)
              else if P = ''AM'' \<and> digitsVal H = 12 then Num 0 else Num (int (digitsVal H)))
             (Num 60)) (Num (int (digitsVal M))))"
proof -
  define t where "t = H @ '':'' @ M"
  define s where "s = t @ '' '' @ P"
  have nosp: "CHR '' '' \<notin> set t"
    using H M by (auto simp: t_def list_all_iff isDigit_def)
  have noP: "CHR '' '' \<notin> set P" using P by auto
  have hd_s: "hd s = hd H" using H by (simp add: s_def t_def)
  have last_s: "last s = CHR ''M''" using P by (auto simp: s_def)
  have "isDigit (hd H)" using H by (cases H) auto
  then have "\<not> isSpace (hd s)" using hd_s by (simp add: isDigit_not_space)
  moreover have "\<not> isSpace (last s)" unfolding last_s by (simp add: isSpace_def)
  moreover have "s \<noteq> []" by (simp add: s_def)
  ultimately have tr: "trim s = s" by (intro trim_id)
  have "hasAmPm P" using P by (auto simp: toUpperChar_def)
  then have "hasAmPm ((t @ '' '') @ P)" by (rule hasAmPm_append)
  then have ap: "hasAmPm s" by (simp add: s_def)
  have "splitOn (CHR '' '') (t @ CHR '' '' # P) = t # splitOn (CHR '' '') P"
    using nosp by (rule splitOn_first)
  also have "splitOn (CHR '' '') P = [P]" using noP by (rule splitOn_none)
  finally have sp: "splitOn (CHR '' '') s = [t, P]" by (simp add: s_def)
  have noc: "CHR '':'' \<notin> set H" "CHR '':'' \<notin> set M"
    using H M by (auto simp: list_all_iff isDigit_def)
  have "splitOn (CHR '':'') (H @ CHR '':'' # M) = H # splitOn (CHR '':'') M"
    using noc(1) by (rule splitOn_first)
  also have "splitOn (CHR '':'') M = [M]" using noc(2) by (rule splitOn_none)
  finally have sc: "splitOn (CHR '':'') t = [H, M]" by (simp add: t_def)
  have up: "toUpperCase P = P" using P by (auto simp: toUpperCase_def toUpperChar_def)
  have nH: "Number_js H = Num (int (digitsVal H))" using H by (rule Number_js_digits)
  have nM: "Number_js M = Num (int (digitsVal M))" using M by (rule Number_js_digits)
  have "parseTime_try s =
           Inr (jsAdd (jsMul
             (if P = ''PM'' \<and> digitsVal H \<noteq> 12 then Num (int (digitsVal H) + 12)
              else if P = ''AM'' \<and> digitsVal H = 12 then Num 0 else Num (int (digitsVal H)))
             (Num 60)) (Num (int (digitsVal M))))"
    using P by (auto simp: parseTime_try_def Let_def tr ap sp sc up nH nM)
  then show ?thesis by (simp add: s_def t_def)
qed

text \<open>
  Claim C6. For every integer \<open>m\<close> with \<open>0 \<le> m < 1440\<close>, parsing the text that
  \<^verbatim>\<open>formatTime\<close> renders for \<open>m\<close> gives \<open>m\<close> back.
\<close>

theorem parseTime_formatTime_roundtrip:
  assumes "0 \<le> m" "m < 1440"
  shows "parseTime (formatTime m) = Num m"
proof -
  define h where "h = m div 60"
  define mi where "mi = m mod 60"
  define dh where "dh = (if h = 0 then 12 else if h > 12 then h - 12 else h)"
  define P where "P = (if h \<ge> 12 then ''PM'' else ''AM'')"
  define H where "H = showNat (nat dh)"
  define M where "M = padStart 2 (CHR ''0'') (showNat (nat mi))"
  have h24: "0 \<le> h" "h < 24" using assms by (auto simp: h_def)
  have mi60: "0 \<le> mi" "mi < 60" by (auto simp: mi_def)
  have dm: "m = 60 * h + mi" by (simp add: h_def mi_def)
  have dh0: "0 \<le> dh" using h24 by (simp add: dh_def)
  have mm: "jsRem (jsRem m (24 * 60) + 24 * 60) (24 * 60) = m"
    using assms by (simp add: jsRem_nonneg)
  have fmt: "formatTime m = H @ '':'' @ M @ '' '' @ P"
    unfolding formatTime_def Let_def mm using assms h24 dh0
    by (simp add: jsRem_nonneg toString_nonneg H_def M_def P_def dh_def h_def mi_def)
  have Hd: "H \<noteq> []" "list_all isDigit H"
    unfolding H_def by (rule showNat_nonempty, rule showNat_digits)
  have Md: "M \<noteq> []" "list_all isDigit M"
    unfolding M_def by (simp add: padStart_def showNat_nonempty, intro pad_digits showNat_digits)
  have vH: "digitsVal H = nat dh" unfolding H_def by (rule digitsVal_showNat)
  have vM: "digitsVal M = nat mi"
    by (simp add: M_def padStart_def digitsVal_zero_pad digitsVal_showNat)
  have Pd: "P = ''AM'' \<or> P = ''PM''" by (simp add: P_def)
  have "parseTime_try (formatTime m) =
           Inr (jsAdd (jsMul
             (if P = ''PM'' \<and> digitsVal H \<noteq> 12 then Num (int (digitsVal H) + 12)
              else if P = ''AM'' \<and> digitsVal H = 12 then Num 0 else Num (int (digitsVal H)))
             (Num 60)) (Num (int (digitsVal M))))"
    unfolding fmt using Hd Md Pd by (rule parseTime_try_12h)
  also have "\<dots> = Inr (Num m)"
    unfolding vH vM using h24 mi60 dm by (auto simp: P_def dh_def split: if_splits)
  finally show ?thesis by (simp add: parseTime_def)
qed

theorem parseTime_formatTime_roundtrip_witness:
  "(0::int) \<le> 725 \<and> (725::int) < 1440 \<and> parseTime (formatTime 725) = Num 725"
  using parseTime_formatTime_roundtrip [of 725] by simp

text \<open>
  Claim C7. An unparsable input must give the sentinel 0. The 24-hour branch checks
  \<^verbatim>\<open>Number.isNaN\<close> and throws into the \<^verbatim>\<open>catch\<close>; the 12-hour branch has no such check, so
  on \<^verbatim>\<open>'abc PM'\<close> nothing throws and the value returned is \<^verbatim>\<open>NaN\<close>, not 0.
\<close>

theorem parseTime_12h_unparsable_NaN:
  "parseTime ''abc PM'' = NaN \<and> parseTime ''abc'' = Num 0"
  by code_simp

section \<open>Properties of the opportunity detector\<close>

text \<open>
  The detector alone: with engagement 9, two unexpected results, one revealed skill and one
  feedback entry whose sentiment is positive it returns five nodes, in the order of its four
  passes, and draws five identifiers; this holds for every completed task and whatever the
  other fields of the context are.
\<close>

lemma detect_five:
  "\<exists>nodes. detectEmergentOpportunities ids k ct
      \<lparr> engagementLevel = 9, unexpectedResults = [''X'', ''Y''], newSkillsRevealed = [''Z''],
        externalFeedback = [FbObject src cont (Some ''positive'')], socialReactions = sr,
        viralPotential = vp, industryConnections = ic, serendipitousEvents = se,
        difficultyRating = dr, breakthrough = bt, shorterPathDiscovered = sp \<rparr> = Inr (nodes, k + 5)
    \<and> map n_branch_type nodes = [''breakthrough_amplification'', ''serendipity_pathway'',
         ''serendipity_pathway'', ''hidden_talent_development'', ''external_opportunity'']
    \<and> map n_status nodes = [''ready'', ''ready'', ''ready'', ''ready'', ''ready'']
    \<and> map n_generated_from nodes = [Some ''high_engagement_detection'',
         Some ''unexpected_result_detection'', Some ''unexpected_result_detection'',
         Some ''skill_revelation_detection'', Some ''external_feedback_detection'']
    \<and> map n_id nodes = [ids k, ids (k + 1), ids (k + 2), ids (k + 3), ids (k + 4)]"
  by (simp add: detectEmergentOpportunities_def breakthroughNode_def serendipityNode_def
      talentNode_def externalNode_def newNode_def numeral_eq_Suc)

text \<open>
  Claim C5. A feedback entry of the shape the tool schema declares, with a sentiment other than
  positive, should produce no node and let the detector return. The detector instead calls
  \<^verbatim>\<open>feedback.includes\<close> on the object and throws: its result is the TypeError, whatever the
  completed task and the rest of the context are. In the concrete project the exception ends
  \<^verbatim>\<open>completeBlock\<close>.
\<close>

theorem detect_object_feedback_throws:
  "detectEmergentOpportunities ids k ct
      \<lparr> engagementLevel = e, unexpectedResults = ur, newSkillsRevealed = ns,
        externalFeedback = [FbObject (Some ''Bob'') (Some ''not for me'') (Some ''negative'')],
        socialReactions = sr, viralPotential = vp, industryConnections = ic,
        serendipitousEvents = se, difficultyRating = dr, breakthrough = bt,
        shorterPathDiscovered = sp \<rparr> = Inl TypeError
   \<and> fst (completeBlock exEnv 0 \<lparr> files = exFiles, unwritable = {} \<rparr> ''n1'' ''done''
          ''scales are fun'' [] 3
          (exContext \<lparr> externalFeedback :=
             [FbObject (Some ''Bob'') (Some ''not for me'') (Some ''negative'')] \<rparr>))
       = Inl TypeError"
proof (rule conjI)
  have "\<And>acc. pushExternal ids ct [FbObject (Some ''Bob'') (Some ''not for me'') (Some ''negative'')] acc
     = Inl TypeError"
    by (case_tac acc) simp
  then show "detectEmergentOpportunities ids k ct
      \<lparr> engagementLevel = e, unexpectedResults = ur, newSkillsRevealed = ns,
        externalFeedback = [FbObject (Some ''Bob'') (Some ''not for me'') (Some ''negative'')],
        socialReactions = sr, viralPotential = vp, industryConnections = ic,
        serendipitousEvents = se, difficultyRating = dr, breakthrough = bt,
        shorterPathDiscovered = sp \<rparr> = Inl TypeError"
    by (simp add: detectEmergentOpportunities_def Let_def)
next
  show "fst (completeBlock exEnv 0 \<lparr> files = exFiles, unwritable = {} \<rparr> ''n1'' ''done''
          ''scales are fun'' [] 3
          (exContext \<lparr> externalFeedback :=
             [FbObject (Some ''Bob'') (Some ''not for me'') (Some ''negative'')] \<rparr>))
       = Inl TypeError"
    by code_simp
qed

section \<open>Properties of the frontier evolution\<close>

lemmas ex_defs = exEnv_def exNode1_def exNode2_def exHTA_def exConfig_def exBlock_def
  exSchedule_def exFiles_def exContext_def newNode_def newBlock_def

lemma showNat_small: "showNat 0 = ''0''" "showNat 1 = ''1''" "showNat 2 = ''2''" "showNat 3 = ''3''"
  by code_simp+

subsection \<open>Saving leaves the other files alone\<close>

lemma dayFile_not_hta: "dayFile d \<noteq> ''hta.json''"
  by (simp add: dayFile_def)

lemma saveProjectData_other:
  "key \<noteq> ProjectFile projectId filename \<Longrightarrow>
   files (snd (saveProjectData st projectId filename d)) key = files st key"
  by (simp add: saveProjectData_def)

lemma saveProjectData_unwritable:
  "unwritable (snd (saveProjectData st projectId filename d)) = unwritable st"
  by (simp add: saveProjectData_def)

subsection \<open>What a completion does to the frontier\<close>

text \<open>
  Without \<^verbatim>\<open>shorterPathDiscovered\<close> the invalidation never throws, and a tree that has a
  \<^verbatim>\<open>completed_nodes\<close> array survives the move of the completed node.
\<close>

lemma keepTask_total:
  "\<not> shorterPathDiscovered ctx \<Longrightarrow> \<exists>b. keepTask ct ctx n = Inr b"
  by (simp add: keepTask_def Let_def)

lemma filterE_total:
  "\<forall>x\<in>set xs. \<exists>b. f x = Inr b \<Longrightarrow> filterE f xs = Inr (filter (\<lambda>x. f x = Inr True) xs)"
  by (induction xs) auto

lemma invalidate_total:
  "\<not> shorterPathDiscovered ctx \<Longrightarrow>
   invalidateUnnecessaryTasks fr ct ctx = Inr (filter (\<lambda>n. keepTask ct ctx n = Inr True) fr)"
  unfolding invalidateUnnecessaryTasks_def
  by (rule filterE_total) (simp add: keepTask_total)

lemma moveCompleted_total:
  assumes "completed_nodes h0 = Some cs"
  shows "\<exists>h cs'. moveCompleted e r blk h0 = Inr h \<and> completed_nodes h = Some cs'
           \<and> set (frontier_nodes h) \<subseteq> set (frontier_nodes h0)"
proof (cases "find (\<lambda>n. n_id n = b_id blk) (frontier_nodes h0)")
  case None
  with assms show ?thesis by (simp add: moveCompleted_def)
next
  case (Some n)
  have "set (take i xs @ drop (Suc i) xs) \<subseteq> set xs" for i and xs :: "node list"
    by (auto dest: in_set_takeD in_set_dropD)
  with Some assms show ?thesis by (simp add: moveCompleted_def Let_def)
qed

lemma frontier_rich:
  assumes cs: "completed_nodes h0 = Some cs"
  shows "\<exists>h kept opps. frontierAfterCompletion e k h0 blk nq
      \<lparr> engagementLevel = 9, unexpectedResults = [''X'', ''Y''], newSkillsRevealed = [''Z''],
        externalFeedback = [FbObject src cont (Some ''positive'')], socialReactions = sr,
        viralPotential = vp, industryConnections = ic, serendipitousEvents = se,
        difficultyRating = dr, breakthrough = bt, shorterPathDiscovered = False \<rparr>
      = Inr (h, kept @ (continuationTask (id_source e k) blk
                  # (if nq \<noteq> [] then [researchTask (id_source e (Suc k)) blk nq] else [])) @ opps)
    \<and> set kept \<subseteq> set (frontier_nodes h0)
    \<and> map n_branch_type opps = [''breakthrough_amplification'', ''serendipity_pathway'',
         ''serendipity_pathway'', ''hidden_talent_development'', ''external_opportunity'']
    \<and> map n_status opps = [''ready'', ''ready'', ''ready'', ''ready'', ''ready'']
    \<and> map n_generated_from opps = [Some ''high_engagement_detection'',
         Some ''unexpected_result_detection'', Some ''unexpected_result_detection'',
         Some ''skill_revelation_detection'', Some ''external_feedback_detection'']"
proof -
  let ?ctx = "\<lparr> engagementLevel = 9, unexpectedResults = [''X'', ''Y''], newSkillsRevealed = [''Z''],
        externalFeedback = [FbObject src cont (Some ''positive'')], socialReactions = sr,
        viralPotential = vp, industryConnections = ic, serendipitousEvents = se,
        difficultyRating = dr, breakthrough = bt, shorterPathDiscovered = False \<rparr>"
  let ?new = "continuationTask (id_source e k) blk
                # (if nq \<noteq> [] then [researchTask (id_source e (Suc k)) blk nq] else [])"
  from moveCompleted_total[OF cs, of e dr blk]
  obtain h cs' where mv: "moveCompleted e dr blk h0 = Inr h" and cs': "completed_nodes h = Some cs'"
    and sub: "set (frontier_nodes h) \<subseteq> set (frontier_nodes h0)" by blast
  let ?ct = "if cs' = [] then blockRef blk else nodeRef (last cs')"
  have "\<exists>opps. detectEmergentOpportunities (id_source e) (k + length ?new) ?ct ?ctx
        = Inr (opps, k + length ?new + 5)
    \<and> map n_branch_type opps = [''breakthrough_amplification'', ''serendipity_pathway'',
         ''serendipity_pathway'', ''hidden_talent_development'', ''external_opportunity'']
    \<and> map n_status opps = [''ready'', ''ready'', ''ready'', ''ready'', ''ready'']
    \<and> map n_generated_from opps = [Some ''high_engagement_detection'',
         Some ''unexpected_result_detection'', Some ''unexpected_result_detection'',
         Some ''skill_revelation_detection'', Some ''external_feedback_detection'']
    \<and> map n_id opps = [id_source e (k + length ?new), id_source e (k + length ?new + 1),
         id_source e (k + length ?new + 2), id_source e (k + length ?new + 3),
         id_source e (k + length ?new + 4)]"
    by (rule detect_five)
  then obtain opps where d: "detectEmergentOpportunities (id_source e) (k + length ?new) ?ct ?ctx
        = Inr (opps, k + length ?new + 5)"
    and p: "map n_branch_type opps = [''breakthrough_amplification'', ''serendipity_pathway'',
         ''serendipity_pathway'', ''hidden_talent_development'', ''external_opportunity'']"
      "map n_status opps = [''ready'', ''ready'', ''ready'', ''ready'', ''ready'']"
      "map n_generated_from opps = [Some ''high_engagement_detection'',
         Some ''unexpected_result_detection'', Some ''unexpected_result_detection'',
         Some ''skill_revelation_detection'', Some ''external_feedback_detection'']"
    by (elim exE conjE)
  let ?kept = "filter (\<lambda>n. keepTask ?ct ?ctx n = Inr True) (frontier_nodes h)"
  have inv: "invalidateUnnecessaryTasks (frontier_nodes h) ?ct ?ctx = Inr ?kept"
    by (rule invalidate_total) simp
  have "frontierAfterCompletion e k h0 blk nq ?ctx = Inr (h, ?kept @ ?new @ opps)"
    unfolding frontierAfterCompletion_def Let_def using mv cs' d inv
    by simp
  moreover have "set ?kept \<subseteq> set (frontier_nodes h0)" using sub by auto
  ultimately show ?thesis using p
    by (intro exI[of _ h] exI[of _ ?kept] exI[of _ opps] conjI)
qed


lemma save_ok: "unwritable st = {} \<Longrightarrow> fst (saveProjectData st p f d)"
  by (simp add: saveProjectData_def)

lemma load_save_other:
  "f \<noteq> f' \<Longrightarrow> loadProjectData (snd (saveProjectData st p f d)) p f' = loadProjectData st p f'"
  by (simp add: saveProjectData_def loadProjectData_def)

lemma loadPath_save:
  "loadPathData (snd (saveProjectData st p f d)) p' a f' = loadPathData st p' a f'"
  by (simp add: saveProjectData_def loadPathData_def)

lemma getActiveHTA_save_other:
  "f \<noteq> ''hta.json'' \<Longrightarrow> f \<noteq> ''config.json'' \<Longrightarrow>
   getActiveHTA (snd (saveProjectData st p f d)) p = getActiveHTA st p"
  by (simp add: getActiveHTA_def load_save_other loadPath_save Let_def cong: option.case_cong)

lemma getActiveHTA_save_config:
  assumes "asConfig (loadProjectData st p ''config.json'') = Some c"
    and "active_learning_path c' = active_learning_path c"
  shows "getActiveHTA (snd (saveProjectData st p ''config.json'' (FConfig c'))) p = getActiveHTA st p"
proof (cases "ProjectFile p ''config.json'' \<in> unwritable st")
  case True
  then show ?thesis by (simp add: saveProjectData_def)
next
  case False
  then have "loadProjectData (snd (saveProjectData st p ''config.json'' (FConfig c'))) p ''config.json''
      = Some (FConfig c')"
    by (simp add: saveProjectData_def loadProjectData_def)
  then show ?thesis using assms
    by (simp add: getActiveHTA_def load_save_other loadPath_save Let_def cong: option.case_cong)
qed

lemma evolve_saves_frontier:
  assumes ga: "getActiveHTA st p = Some h0"
    and wr: "unwritable st = {}"
    and fa: "frontierAfterCompletion e k h0 blk nq ctx = Inr (h, remaining)"
  shows "\<exists>st' h'. evolveHTABasedOnLearning e k st p blk learned nq ctx = (Inr (), st')
     \<and> getActiveHTA st' p = Some h'
     \<and> frontier_nodes h' = map jsonNode (adjustDifficulty (difficultyRating ctx) remaining)"
proof -
  let ?h' = "h \<lparr> frontier_nodes := adjustDifficulty (difficultyRating ctx) remaining,
                 last_evolution := Some (now_iso e) \<rparr>"
  let ?ap = "(case asConfig (loadProjectData st p ''config.json'') of
                None \<Rightarrow> ''general''
              | Some projectConfig \<Rightarrow> strOr (active_learning_path projectConfig) ''general'')"
  let ?st' = "snd (savePathData st p ?ap ''hta.json'' (FHTA ?h'))"
  have saved: "fst (savePathData st p ?ap ''hta.json'' (FHTA ?h'))"
    using wr by (simp add: savePathData_def)
  have ev: "evolveHTABasedOnLearning e k st p blk learned nq ctx = (Inr (), ?st')"
    using ga fa saved by (simp add: evolveHTABasedOnLearning_def Let_def split_def)
  have "\<exists>h''. getActiveHTA ?st' p = Some h''
      \<and> frontier_nodes h'' = map jsonNode (adjustDifficulty (difficultyRating ctx) remaining)"
    using ga wr
    by (auto simp: getActiveHTA_def savePathData_def loadProjectData_def loadPathData_def
        split: option.splits)
  with ev show ?thesis by blast
qed

lemma dayFile_names:
  "dayFile d \<noteq> ''hta.json''" "dayFile d \<noteq> ''config.json''" "dayFile d \<noteq> ''learning_history.json''"
  by (simp_all add: dayFile_def)


lemma adjustDifficulty_append:
  "adjustDifficulty r (xs @ ys) = adjustDifficulty r xs @ adjustDifficulty r ys"
  by (simp add: adjustDifficulty_def)

lemma stored_fields:
  "map n_id (map jsonNode (adjustDifficulty r xs)) = map n_id xs"
  "map n_branch_type (map jsonNode (adjustDifficulty r xs)) = map n_branch_type xs"
  "map n_status (map jsonNode (adjustDifficulty r xs)) = map n_status xs"
  "map n_generated_from (map jsonNode (adjustDifficulty r xs)) = map n_generated_from xs"
  by (simp_all add: adjustDifficulty_def jsonNode_def o_def)

lemma completeBlock_reaches_evolution:
  assumes act: "requireActiveProject st = Inr p"
    and day: "asSchedule (loadProjectData st p (dayFile (today e))) = Some sched"
    and blocks: "s_time_blocks sched = Some blocks"
    and found: "findBlockIndex blocks blockId = Some i"
    and tree: "getActiveHTA st p = Some h0"
    and wr: "unwritable st = {}"
  shows "\<exists>st3 blk nb.
      completeBlock e k st blockId outcome learned nq energyLevel ctx
      = (case evolveHTABasedOnLearning e k st3 p blk learned nq
                (ctx \<lparr> shorterPathDiscovered := False \<rparr>) of
           (Inl err, st4) \<Rightarrow> (Inl err, st4)
         | (Inr u, st4) \<Rightarrow> (Inr nb, st4))
      \<and> getActiveHTA st3 p = Some h0 \<and> unwritable st3 = {}"
proof -
  obtain cfg where cfg: "asConfig (loadProjectData st p ''config.json'') = Some cfg"
    using tree by (cases "asConfig (loadProjectData st p ''config.json'')")
      (simp_all add: getActiveHTA_def)
  have cfgload: "\<And>d1 d2. asConfig (loadProjectData (snd (saveProjectData
         (snd (saveProjectData st p (dayFile (today e)) d1)) p ''learning_history.json'' d2))
         p ''config.json'') = Some cfg"
    using cfg dayFile_names[of "today e"] by (simp add: load_save_other)
  have treeload: "getActiveHTA (snd (saveProjectData (snd (saveProjectData
         (snd (saveProjectData st p (dayFile (today e)) d1)) p ''learning_history.json'' d2))
         p ''config.json'' (FConfig c'))) p = Some h0"
    if "active_learning_path c' = active_learning_path cfg" for d1 d2 c'
  proof -
    let ?st1 = "snd (saveProjectData st p (dayFile (today e)) d1)"
    let ?st2 = "snd (saveProjectData ?st1 p ''learning_history.json'' d2)"
    have "getActiveHTA (snd (saveProjectData ?st2 p ''config.json'' (FConfig c'))) p
        = getActiveHTA ?st2 p"
      using cfgload that by (rule getActiveHTA_save_config)
    also have "\<dots> = getActiveHTA ?st1 p"
      by (rule getActiveHTA_save_other) simp_all
    also have "\<dots> = getActiveHTA st p"
      by (rule getActiveHTA_save_other) (rule dayFile_names)+
    finally show ?thesis using tree by simp
  qed
  have ok: "\<And>f d. fst (saveProjectData st p f d) = True"
    using wr by (simp add: saveProjectData_def)
  show ?thesis
    unfolding completeBlock_def
    apply (simp only: act day blocks found ok cfgload Let_def split_def sum.case option.case
             not_True_eq_False if_False)
    apply (intro exI conjI)
      apply (rule refl)
     apply (rule treeload)
     apply simp
    apply (simp add: saveProjectData_unwritable wr)
    done
qed

text \<open>
  Claim C4. Take a project with an active tree that has a \<^verbatim>\<open>completed_nodes\<close> array, a
  schedule for today that holds the block, and a writable disk. Completing the block with
  \<^verbatim>\<open>engagementLevel = 9\<close>, \<^verbatim>\<open>unexpectedResults = ["X", "Y"]\<close>,
  \<^verbatim>\<open>newSkillsRevealed = ["Z"]\<close> and one feedback entry whose sentiment is positive succeeds,
  and the frontier of the tree that is stored afterwards consists of nodes that were in the
  frontier before, followed by the continuation task (and the research task when there is a
  question), followed by exactly five opportunity nodes: one breakthrough amplification, two
  serendipity pathways, one hidden talent development and one external opportunity, each with
  status \<^verbatim>\<open>ready\<close> and a \<^verbatim>\<open>generated_from\<close> tag. This holds whatever the difficulty rating
  and the other fields of the context are.
\<close>

theorem completion_emits_five_opportunities:
  assumes act: "requireActiveProject st = Inr p"
    and day: "asSchedule (loadProjectData st p (dayFile (today e))) = Some sched"
    and blocks: "s_time_blocks sched = Some blocks"
    and found: "findBlockIndex blocks blockId = Some i"
    and tree: "getActiveHTA st p = Some h0"
    and cs: "completed_nodes h0 = Some cs"
    and wr: "unwritable st = {}"
  shows "\<exists>nextBlock st' h' old followUps opps.
      completeBlock e k st blockId outcome learned nq energyLevel
        \<lparr> engagementLevel = 9, unexpectedResults = [''X'', ''Y''], newSkillsRevealed = [''Z''],
          externalFeedback = [FbObject src cont (Some ''positive'')], socialReactions = sr,
          viralPotential = vp, industryConnections = ic, serendipitousEvents = se,
          difficultyRating = dr, breakthrough = bt, shorterPathDiscovered = sp \<rparr>
        = (Inr nextBlock, st')
    \<and> getActiveHTA st' p = Some h'
    \<and> frontier_nodes h' = old @ followUps @ opps
    \<and> n_id ` set old \<subseteq> n_id ` set (frontier_nodes h0)
    \<and> map n_generated_from followUps =
          Some ''task_completion'' # (if nq = [] then [] else [Some ''curiosity''])
    \<and> map n_branch_type opps = [''breakthrough_amplification'', ''serendipity_pathway'',
         ''serendipity_pathway'', ''hidden_talent_development'', ''external_opportunity'']
    \<and> map n_status opps = [''ready'', ''ready'', ''ready'', ''ready'', ''ready'']
    \<and> map n_generated_from opps = [Some ''high_engagement_detection'',
         Some ''unexpected_result_detection'', Some ''unexpected_result_detection'',
         Some ''skill_revelation_detection'', Some ''external_feedback_detection'']"
proof -
  let ?ctx = "\<lparr> engagementLevel = 9, unexpectedResults = [''X'', ''Y''], newSkillsRevealed = [''Z''],
          externalFeedback = [FbObject src cont (Some ''positive'')], socialReactions = sr,
          viralPotential = vp, industryConnections = ic, serendipitousEvents = se,
          difficultyRating = dr, breakthrough = bt, shorterPathDiscovered = False \<rparr>"
  let ?given = "\<lparr> engagementLevel = 9, unexpectedResults = [''X'', ''Y''], newSkillsRevealed = [''Z''],
          externalFeedback = [FbObject src cont (Some ''positive'')], socialReactions = sr,
          viralPotential = vp, industryConnections = ic, serendipitousEvents = se,
          difficultyRating = dr, breakthrough = bt, shorterPathDiscovered = sp \<rparr>"
  have c0: "?given \<lparr> shorterPathDiscovered := False \<rparr> = ?ctx" by simp
  have "\<exists>st3 blk nb.
      completeBlock e k st blockId outcome learned nq energyLevel ?given
      = (case evolveHTABasedOnLearning e k st3 p blk learned nq
                (?given \<lparr> shorterPathDiscovered := False \<rparr>) of
           (Inl err, st4) \<Rightarrow> (Inl err, st4)
         | (Inr u, st4) \<Rightarrow> (Inr nb, st4))
      \<and> getActiveHTA st3 p = Some h0 \<and> unwritable st3 = {}"
    by (rule completeBlock_reaches_evolution[OF act day blocks found tree wr])
  then obtain st3 blk nb where
    cb: "completeBlock e k st blockId outcome learned nq energyLevel ?given
      = (case evolveHTABasedOnLearning e k st3 p blk learned nq ?ctx of
           (Inl err, st4) \<Rightarrow> (Inl err, st4)
         | (Inr u, st4) \<Rightarrow> (Inr nb, st4))"
    and ga3: "getActiveHTA st3 p = Some h0" and wr3: "unwritable st3 = {}"
    unfolding c0 by (elim exE conjE)
  let ?new = "continuationTask (id_source e k) blk
                # (if nq \<noteq> [] then [researchTask (id_source e (Suc k)) blk nq] else [])"
  from frontier_rich[OF cs, of e k blk nq src cont sr vp ic se dr bt]
  obtain h kept opps where fa: "frontierAfterCompletion e k h0 blk nq ?ctx = Inr (h, kept @ ?new @ opps)"
    and kept: "set kept \<subseteq> set (frontier_nodes h0)"
    and p1: "map n_branch_type opps = [''breakthrough_amplification'', ''serendipity_pathway'',
         ''serendipity_pathway'', ''hidden_talent_development'', ''external_opportunity'']"
    and p2: "map n_status opps = [''ready'', ''ready'', ''ready'', ''ready'', ''ready'']"
    and p3: "map n_generated_from opps = [Some ''high_engagement_detection'',
         Some ''unexpected_result_detection'', Some ''unexpected_result_detection'',
         Some ''skill_revelation_detection'', Some ''external_feedback_detection'']"
    by (elim exE conjE)
  from evolve_saves_frontier[OF ga3 wr3 fa, of learned]
  obtain st' h' where ev: "evolveHTABasedOnLearning e k st3 p blk learned nq ?ctx = (Inr (), st')"
    and ld: "getActiveHTA st' p = Some h'"
    and fr: "frontier_nodes h' = map jsonNode (adjustDifficulty dr (kept @ ?new @ opps))"
    by auto
  let ?old = "map jsonNode (adjustDifficulty dr kept)"
  let ?fu = "map jsonNode (adjustDifficulty dr ?new)"
  let ?op = "map jsonNode (adjustDifficulty dr opps)"
  have r1: "completeBlock e k st blockId outcome learned nq energyLevel ?given = (Inr nb, st')"
    unfolding cb ev by simp
  have r3: "frontier_nodes h' = ?old @ ?fu @ ?op"
    unfolding fr by (simp only: adjustDifficulty_append map_append)
  have "set (map n_id ?old) \<subseteq> set (map n_id (frontier_nodes h0))"
    unfolding stored_fields using kept by auto
  then have r4: "n_id ` set ?old \<subseteq> n_id ` set (frontier_nodes h0)"
    by (simp only: set_map)
  have r5: "map n_generated_from ?fu =
          Some ''task_completion'' # (if nq = [] then [] else [Some ''curiosity''])"
    unfolding stored_fields by (simp add: continuationTask_def researchTask_def)
  have r6: "map n_branch_type ?op = [''breakthrough_amplification'', ''serendipity_pathway'',
         ''serendipity_pathway'', ''hidden_talent_development'', ''external_opportunity'']"
    "map n_status ?op = [''ready'', ''ready'', ''ready'', ''ready'', ''ready'']"
    "map n_generated_from ?op = [Some ''high_engagement_detection'',
         Some ''unexpected_result_detection'', Some ''unexpected_result_detection'',
         Some ''skill_revelation_detection'', Some ''external_feedback_detection'']"
    unfolding stored_fields by (rule p1 p2 p3)+
  from r1 ld r3 r4 r5 r6 show ?thesis
    by (intro exI[of _ nb] exI[of _ st'] exI[of _ h']
        exI[of _ ?old] exI[of _ ?fu] exI[of _ ?op] conjI)
qed

theorem completion_emits_five_opportunities_witness:
  "requireActiveProject \<lparr>files = exFiles, unwritable = {}\<rparr> = Inr ''p''
   \<and> asSchedule (loadProjectData \<lparr>files = exFiles, unwritable = {}\<rparr> ''p'' (dayFile (today exEnv)))
       = Some exSchedule
   \<and> s_time_blocks exSchedule = Some [exBlock]
   \<and> findBlockIndex [exBlock] ''n1'' = Some 0
   \<and> getActiveHTA \<lparr>files = exFiles, unwritable = {}\<rparr> ''p'' = Some exHTA
   \<and> completed_nodes exHTA = Some []
   \<and> unwritable \<lparr>files = exFiles, unwritable = {}\<rparr> = {}
   \<and> (\<exists>nextBlock st' h' old followUps opps.
        completeBlock exEnv 0 \<lparr>files = exFiles, unwritable = {}\<rparr> ''n1'' ''done''
          ''scales are fun'' [] 3 richContext = (Inr nextBlock, st')
      \<and> getActiveHTA st' ''p'' = Some h'
      \<and> frontier_nodes h' = old @ followUps @ opps
      \<and> n_id ` set old \<subseteq> n_id ` set (frontier_nodes exHTA)
      \<and> map n_generated_from followUps = [Some ''task_completion'']
      \<and> map n_branch_type opps = [''breakthrough_amplification'', ''serendipity_pathway'',
           ''serendipity_pathway'', ''hidden_talent_development'', ''external_opportunity'']
      \<and> map n_status opps = [''ready'', ''ready'', ''ready'', ''ready'', ''ready'']
      \<and> map n_generated_from opps = [Some ''high_engagement_detection'',
           Some ''unexpected_result_detection'', Some ''unexpected_result_detection'',
           Some ''skill_revelation_detection'', Some ''external_feedback_detection''])
   \<and> map_option (map n_branch_type \<circ> frontier_nodes)
        (getActiveHTA (snd (completeBlock exEnv 0 \<lparr>files = exFiles, unwritable = {}\<rparr> ''n1''
           ''done'' ''scales are fun'' [] 3 richContext)) ''p'')
       = Some [''fundamentals'', ''breakthrough_amplification'', ''serendipity_pathway'',
           ''serendipity_pathway'', ''hidden_talent_development'', ''external_opportunity'']"
proof -
  let ?st = "\<lparr>files = exFiles, unwritable = {}\<rparr>"
  have act: "requireActiveProject ?st = Inr ''p''"
    by (simp add: requireActiveProject_def loadGlobalData_def exFiles_def)
  have day: "asSchedule (loadProjectData ?st ''p'' (dayFile (today exEnv))) = Some exSchedule"
    by (simp add: loadProjectData_def dayFile_def exEnv_def exFiles_def)
  have blocks: "s_time_blocks exSchedule = Some [exBlock]"
    by (simp add: exSchedule_def)
  have found: "findBlockIndex [exBlock] ''n1'' = Some 0"
    by (simp add: findBlockIndex_def exBlock_def)
  have tree: "getActiveHTA ?st ''p'' = Some exHTA"
    by (simp add: getActiveHTA_def loadProjectData_def loadPathData_def exFiles_def strOr_def
        exConfig_def)
  have cs: "completed_nodes exHTA = Some []"
    by (simp add: exHTA_def)
  have wr: "unwritable ?st = {}" by simp
  have main: "\<exists>nextBlock st' h' old followUps opps.
        completeBlock exEnv 0 ?st ''n1'' ''done'' ''scales are fun'' [] 3 richContext = (Inr nextBlock, st')
      \<and> getActiveHTA st' ''p'' = Some h'
      \<and> frontier_nodes h' = old @ followUps @ opps
      \<and> n_id ` set old \<subseteq> n_id ` set (frontier_nodes exHTA)
      \<and> map n_generated_from followUps = [Some ''task_completion'']
      \<and> map n_branch_type opps = [''breakthrough_amplification'', ''serendipity_pathway'',
           ''serendipity_pathway'', ''hidden_talent_development'', ''external_opportunity'']
      \<and> map n_status opps = [''ready'', ''ready'', ''ready'', ''ready'', ''ready'']
      \<and> map n_generated_from opps = [Some ''high_engagement_detection'',
           Some ''unexpected_result_detection'', Some ''unexpected_result_detection'',
           Some ''skill_revelation_detection'', Some ''external_feedback_detection'']"
    using completion_emits_five_opportunities[OF act day blocks found tree cs wr,
      where k = 0 and outcome = "''done''" and learned = "''scales are fun''" and nq = "[]"
        and energyLevel = 3 and src = "Some ''Ann''" and cont = "Some ''well done''"
        and sr = "[]" and vp = False and ic = "[]" and se = "[]" and dr = 3 and bt = False
        and sp = False]
    unfolding richContext_def by simp
  have run: "map_option (map n_branch_type \<circ> frontier_nodes)
        (getActiveHTA (snd (completeBlock exEnv 0 ?st ''n1''
           ''done'' ''scales are fun'' [] 3 richContext)) ''p'')
       = Some [''fundamentals'', ''breakthrough_amplification'', ''serendipity_pathway'',
           ''serendipity_pathway'', ''hidden_talent_development'', ''external_opportunity'']"
    by code_simp
  from act day blocks found tree cs wr main run show ?thesis
    by (intro conjI)
qed

text \<open>
  Claim C3. With difficulty rating 5 every node that remains in the frontier must come out one
  lower, but not below 3, and with rating 1 one higher, but not above 10. The rebalancing maps
  over the frontier after the new nodes are pushed, and one of them can lack a numeric
  magnitude: completing a block that has no magnitude (the habit block \<^verbatim>\<open>h1\<close>, in a tree
  with nothing completed yet) with engagement 9 creates the breakthrough node with magnitude
  \<^verbatim>\<open>Math.max(3, undefined - 1)\<close>, which is \<^verbatim>\<open>NaN\<close>. The rebalancing leaves it
  \<^verbatim>\<open>NaN\<close> for rating 5 and for rating 1, and the file stores \<^verbatim>\<open>null\<close>; the other three
  nodes go from 6, 3, 5 to 5, 3, 4 and to 7, 4, 6. The continuation task reads the same
  magnitude of the same block behind the guard \<^verbatim>\<open>|| 6\<close>.
\<close>

theorem rebalancing_leaves_breakthrough_node_without_magnitude:
  "fst (completeBlock exEnv 0 habitStore ''h1'' ''done'' ''felt great'' [] 4 keenContext)
     = Inr (Some exBlock)
   \<and> map_sum id (\<lambda>(h, remaining). (map n_magnitude remaining,
          map n_magnitude (adjustDifficulty 5 remaining),
          map n_magnitude (adjustDifficulty 1 remaining)))
        (frontierAfterCompletion exEnv 0 exHTA exHabitDone [] keenContext)
     = Inr ([Number (Num 6), Number (Num 3), Number (Num 5), Number NaN],
            [Number (Num 5), Number (Num 3), Number (Num 4), Number NaN],
            [Number (Num 7), Number (Num 4), Number (Num 6), Number NaN])
   \<and> map_option (map n_magnitude \<circ> frontier_nodes)
        (getActiveHTA (snd (completeBlock exEnv 0 habitStore ''h1'' ''done'' ''felt great'' [] 4
           keenContext)) ''p'')
     = Some [Number (Num 5), Number (Num 3), Number (Num 4), Null]
   \<and> map_option (map n_magnitude \<circ> frontier_nodes)
        (getActiveHTA (snd (completeBlock exEnv 0 habitStore ''h1'' ''done'' ''felt great'' [] 4
           (keenContext \<lparr> difficultyRating := 1 \<rparr>))) ''p'')
     = Some [Number (Num 7), Number (Num 4), Number (Num 6), Null]"
  by code_simp

text \<open>
  Claim C9. A failed save must abort the operation with an error. Take the concrete project on
  a disk where the learning history, the configuration and both places of the task tree cannot
  be written.
  \<^verbatim>\<open>completeBlock\<close> checks the result of the first save only (the day's schedule): it
  returns its normal response, and the history, the configuration and the evolved tree are
  not stored.
\<close>

theorem completeBlock_continues_after_failed_saves:
  "\<exists>nextBlock st'. completeBlock exEnv 0 badStore ''n1'' ''done'' ''scales are fun'' [] 3 exContext
        = (Inr nextBlock, st')
      \<and> files st' (ProjectFile ''p'' ''learning_history.json'') = None
      \<and> files st' (ProjectFile ''p'' ''config.json'') = Some (FConfig exConfig)
      \<and> files st' (ProjectFile ''p'' ''hta.json'') = Some (FHTA exHTA)
      \<and> files st' (PathFile ''p'' ''general'' ''hta.json'') = None
      \<and> (\<exists>s. files st' (ProjectFile ''p'' ''day_2025-01-01.json'') = Some (FSchedule s)
            \<and> s_completed s = 1)"
  by (simp add: completeBlock_def requireActiveProject_def loadGlobalData_def loadProjectData_def
      saveProjectData_def savePathData_def dayFile_def findBlockIndex_def badStore_def
      evolveHTABasedOnLearning_def getActiveHTA_def loadPathData_def strOr_def
      frontierAfterCompletion_def moveCompleted_def detectEmergentOpportunities_def
      invalidateUnnecessaryTasks_def keepTask_def continuationTask_def numOr_def notCompleted_def
      adjustDifficulty_def ex_defs Let_def showNat_small)

section \<open>Properties of the schedule synthesizer\<close>

lemma allTimes_split: "allTimes ss = usedTimes ss \<union> freeTimes ss"
  by (auto simp: allTimes_def usedTimes_def freeTimes_def)

lemma markUsed_length [simp]: "length (markUsed i ss) = length ss"
  by (simp add: markUsed_def)

lemma markUsed_allTimes: "i < length ss \<Longrightarrow> allTimes (markUsed i ss) = allTimes ss"
proof -
  assume i: "i < length ss"
  have "map formatted_time (markUsed i ss) = map formatted_time ss"
    using i by (simp add: markUsed_def list_eq_iff_nth_eq nth_list_update)
  then have "set (map formatted_time (markUsed i ss)) = set (map formatted_time ss)" by simp
  then show ?thesis by (simp add: allTimes_def)
qed

lemma usedTimesI: "s \<in> set ss \<Longrightarrow> \<not> available s \<Longrightarrow> x = formatted_time s \<Longrightarrow> x \<in> usedTimes ss"
  unfolding usedTimes_def by blast

lemma markUsed_usedTimes:
  assumes i: "i < length ss"
  shows "usedTimes (markUsed i ss) = insert (formatted_time (ss ! i)) (usedTimes ss)"
proof (rule set_eqI, rule iffI)
  fix x assume "x \<in> usedTimes (markUsed i ss)"
  then obtain s where s: "s \<in> set (markUsed i ss)" "\<not> available s" "x = formatted_time s"
    by (auto simp: usedTimes_def)
  then obtain j where j: "j < length ss" "s = markUsed i ss ! j"
    by (auto simp: in_set_conv_nth)
  show "x \<in> insert (formatted_time (ss ! i)) (usedTimes ss)"
  proof (cases "j = i")
    case True
    with j s i show ?thesis by (simp add: markUsed_def)
  next
    case False
    with j i have sj: "s = ss ! j" by (simp add: markUsed_def)
    have "ss ! j \<in> set ss" using j by simp
    with sj s have "x \<in> usedTimes ss" by (intro usedTimesI[of s]) simp_all
    then show ?thesis by simp
  qed
next
  fix x assume x: "x \<in> insert (formatted_time (ss ! i)) (usedTimes ss)"
  have mi: "markUsed i ss ! i \<in> set (markUsed i ss)" using i by simp
  have mi2: "\<not> available (markUsed i ss ! i)" "formatted_time (markUsed i ss ! i) = formatted_time (ss ! i)"
    using i by (simp_all add: markUsed_def)
  show "x \<in> usedTimes (markUsed i ss)"
  proof (cases "x = formatted_time (ss ! i)")
    case True
    with mi mi2 show ?thesis by (intro usedTimesI[of "markUsed i ss ! i"]) simp_all
  next
    case False
    with x obtain s where s: "s \<in> set ss" "\<not> available s" "x = formatted_time s"
      by (auto simp: usedTimes_def)
    then obtain j where j: "j < length ss" "s = ss ! j" by (auto simp: in_set_conv_nth)
    show ?thesis
    proof (cases "j = i")
      case True
      with j s mi mi2 show ?thesis by (intro usedTimesI[of "markUsed i ss ! i"]) simp_all
    next
      case False
      with j i have "markUsed i ss ! j = s" by (simp add: markUsed_def)
      moreover have "markUsed i ss ! j \<in> set (markUsed i ss)" using j by simp
      ultimately show ?thesis using s by (intro usedTimesI[of "markUsed i ss ! j"]) simp_all
    qed
  qed
qed

lemma placed_refl: "placed bs ss bs ss"
  by (auto simp: placed_def)

lemma placed_trans: "placed bs ss bs1 ss1 \<Longrightarrow> placed bs1 ss1 bs2 ss2 \<Longrightarrow> placed bs ss bs2 ss2"
  unfolding placed_def
  apply (elim conjE exE)
  apply (intro conjI)
    apply simp
   apply simp
  subgoal for new new'
    by (rule exI[of _ "new @ new'"]) auto
  done

lemma placed_push:
  "i < length ss \<Longrightarrow> b_time b = formatted_time (ss ! i) \<Longrightarrow> placed bs ss (bs @ [b]) (markUsed i ss)"
  unfolding placed_def
  by (auto simp: markUsed_allTimes markUsed_usedTimes intro!: exI[of _ "[b]"])

lemma placeNodes_placed:
  assumes "\<And>n s. b_time (mk n s) = formatted_time s"
  shows "\<forall>i\<in>set idxs. i < length ss \<Longrightarrow>
         placeNodes mk nodes idxs (bs, ss, ni) = (bs', ss', ni') \<Longrightarrow> placed bs ss bs' ss'"
proof (induction idxs arbitrary: bs ss ni)
  case Nil
  then show ?case by (simp add: placed_refl)
next
  case (Cons i rest)
  show ?case
  proof (cases "ni < length nodes")
    case True
    let ?b = "mk (nodes ! ni) (ss ! i)"
    have step: "placed bs ss (bs @ [?b]) (markUsed i ss)"
      using Cons.prems(1) assms by (intro placed_push) auto
    have "placeNodes mk nodes rest (bs @ [?b], markUsed i ss, Suc ni) = (bs', ss', ni')"
      using Cons.prems(2) True by simp
    moreover have "\<forall>j\<in>set rest. j < length (markUsed i ss)" using Cons.prems(1) by simp
    ultimately have "placed (bs @ [?b]) (markUsed i ss) bs' ss'" by (rule Cons.IH[rotated])
    with step show ?thesis by (rule placed_trans)
  next
    case False
    then have "placeNodes mk nodes rest (bs, ss, ni) = (bs', ss', ni')"
      using Cons.prems(2) by simp
    moreover have "\<forall>j\<in>set rest. j < length ss" using Cons.prems(1) by simp
    ultimately show ?thesis by (rule Cons.IH[rotated])
  qed
qed

lemma availableSlots_bound: "\<forall>i\<in>set (availableSlots ss). i < length ss"
  by (simp add: availableSlots_def)

lemma placed_length: "placed bs ss bs' ss' \<Longrightarrow> length ss' = length ss"
  by (simp add: placed_def)

lemma placeInPeriods_placed:
  assumes "\<And>n s. b_time (mk n s) = formatted_time s"
  shows "\<forall>i\<in>set avail. i < length ss \<Longrightarrow>
         placeInPeriods mk nodes avail periods (bs, ss, ni) = (bs', ss', ni') \<Longrightarrow> placed bs ss bs' ss'"
proof (induction periods arbitrary: bs ss ni)
  case Nil
  then show ?case by (simp add: placed_refl)
next
  case (Cons p periods)
  obtain pstart pend where p: "p = (pstart, pend)" by (cases p)
  let ?ps = "filter (\<lambda>i. jsGe (Num (sl_start (ss ! i))) pstart \<and> jsLe (Num (sl_start (ss ! i))) pend) avail"
  obtain bs1 ss1 ni1 where r: "placeNodes mk nodes ?ps (bs, ss, ni) = (bs1, ss1, ni1)"
    by (cases "placeNodes mk nodes ?ps (bs, ss, ni)")
  have b: "\<forall>i\<in>set ?ps. i < length ss" using Cons.prems(1) by simp
  have s1: "placed bs ss bs1 ss1" using assms b r by (rule placeNodes_placed)
  have "placeInPeriods mk nodes avail periods (bs1, ss1, ni1) = (bs', ss', ni')"
    using Cons.prems(2) p r by simp
  moreover have "\<forall>i\<in>set avail. i < length ss1"
    using Cons.prems(1) placed_length[OF s1] by simp
  ultimately have "placed bs1 ss1 bs' ss'" by (rule Cons.IH[rotated])
  with s1 show ?case by (rule placed_trans)
qed

lemma learningBlock_time: "b_time (learningBlock et fd n s) = formatted_time s"
  by (simp add: learningBlock_def)

lemma scheduleLearningBlocks_placed:
  assumes "scheduleLearningBlocks learningNodes ss periods fd el = (bs', ss')"
  shows "placed [] ss bs' ss'"
proof -
  let ?avail = "availableSlots ss"
  let ?ch = "filter (\<lambda>n. jsGe (toNum (n_magnitude n)) (Num 7)) learningNodes"
  let ?easy = "filter (\<lambda>n. jsLt (toNum (n_magnitude n)) (Num 7)) learningNodes"
  obtain bs1 ss1 ni1 where r1:
    "placeInPeriods (learningBlock ''high-focus'' fd) ?ch ?avail periods ([], ss, 0) = (bs1, ss1, ni1)"
    by (cases "placeInPeriods (learningBlock ''high-focus'' fd) ?ch ?avail periods ([], ss, 0)")
  let ?rem = "filter (\<lambda>i. available (ss1 ! i)) ?avail"
  obtain bs2 ss2 ni2 where r2:
    "placeNodes (learningBlock ''moderate'' fd) ?easy ?rem (bs1, ss1, 0) = (bs2, ss2, ni2)"
    by (cases "placeNodes (learningBlock ''moderate'' fd) ?easy ?rem (bs1, ss1, 0)")
  have p1: "placed [] ss bs1 ss1"
    using learningBlock_time availableSlots_bound r1 by (rule placeInPeriods_placed)
  have "\<forall>i\<in>set ?rem. i < length ss1"
    using availableSlots_bound[of ss] placed_length[OF p1] by simp
  with learningBlock_time have p2: "placed bs1 ss1 bs2 ss2"
    using r2 by (rule placeNodes_placed)
  have "(bs', ss') = (bs2, ss2)"
    using assms r1 r2 by (simp add: scheduleLearningBlocks_def Let_def)
  with placed_trans[OF p1 p2] show ?thesis by simp
qed

lemma placeHabits_placed:
  "\<forall>i\<in>set avail. i < length ss \<Longrightarrow>
   placeHabits habitTimes avail habits index (bs, ss) = (bs', ss') \<Longrightarrow> placed bs ss bs' ss'"
proof (induction habits arbitrary: index bs ss)
  case Nil
  then show ?case by (simp add: placed_refl)
next
  case (Cons hb rest)
  show ?case
  proof (cases "index < length habitTimes")
    case False
    then have "placeHabits habitTimes avail rest (Suc index) (bs, ss) = (bs', ss')"
      using Cons.prems(2) by simp
    with Cons.prems(1) show ?thesis by (rule Cons.IH)
  next
    case True
    show ?thesis
    proof (cases "find (\<lambda>i. \<bar>sl_start (ss ! i) - habitTimes ! index\<bar> < 30) avail")
      case None
      then have "placeHabits habitTimes avail rest (Suc index) (bs, ss) = (bs', ss')"
        using Cons.prems(2) True by simp
      with Cons.prems(1) show ?thesis by (rule Cons.IH)
    next
      case (Some i)
      then have "i \<in> set avail" by (auto simp: find_Some_iff)
      then have i: "i < length ss" using Cons.prems(1) by simp
      let ?b = "habitBlock hb (ss ! i)"
      have step: "placed bs ss (bs @ [?b]) (markUsed i ss)"
        using i by (intro placed_push) (simp_all add: habitBlock_def)
      have "placeHabits habitTimes avail rest (Suc index) (bs @ [?b], markUsed i ss) = (bs', ss')"
        using Cons.prems(2) True Some by simp
      moreover have "\<forall>j\<in>set avail. j < length (markUsed i ss)" using Cons.prems(1) by simp
      ultimately have "placed (bs @ [?b]) (markUsed i ss) bs' ss'" by (rule Cons.IH[rotated])
      with step show ?thesis by (rule placed_trans)
    qed
  qed
qed

lemma scheduleHabitBlocks_placed:
  "scheduleHabitBlocks habitNodes ss projectConfig = (bs', ss') \<Longrightarrow> placed [] ss bs' ss'"
  unfolding scheduleHabitBlocks_def Let_def
  by (rule placeHabits_placed[OF availableSlots_bound])

lemma placeBreaks_placed:
  "\<forall>i\<in>set avail. i < length ss \<Longrightarrow>
   placeBreaks g n avail index (bs, ss, k) = (bs', ss', k') \<Longrightarrow> placed bs ss bs' ss'"
proof (induction avail arbitrary: index bs ss k)
  case Nil
  then show ?case by (simp add: placed_refl)
next
  case (Cons i rest)
  show ?case
  proof (cases "index mod 3 = 0 \<and> Suc index < n")
    case True
    let ?b = "breakBlock (g k) (ss ! i)"
    have step: "placed bs ss (bs @ [?b]) (markUsed i ss)"
      using Cons.prems(1) by (intro placed_push) (simp_all add: breakBlock_def)
    have "placeBreaks g n rest (Suc index) (bs @ [?b], markUsed i ss, Suc k) = (bs', ss', k')"
      using Cons.prems(2) True by simp
    moreover have "\<forall>j\<in>set rest. j < length (markUsed i ss)" using Cons.prems(1) by simp
    ultimately have "placed (bs @ [?b]) (markUsed i ss) bs' ss'" by (rule Cons.IH[rotated])
    with step show ?thesis by (rule placed_trans)
  next
    case False
    then have "placeBreaks g n rest (Suc index) (bs, ss, k) = (bs', ss', k')"
      using Cons.prems(2) by auto
    moreover have "\<forall>j\<in>set rest. j < length ss" using Cons.prems(1) by simp
    ultimately show ?thesis by (rule Cons.IH[rotated])
  qed
qed

lemma placeTransitions_times:
  "placeTransitions g tt sls (bs, k) = (bs', k') \<Longrightarrow>
   b_time ` set bs' = b_time ` set bs \<union> formatted_time ` set sls"
proof (induction sls arbitrary: bs k)
  case Nil
  then show ?case by simp
next
  case (Cons sl rest)
  have "placeTransitions g tt rest (bs @ [transitionBlock (g k) tt sl], Suc k) = (bs', k')"
    using Cons.prems by simp
  from Cons.IH[OF this] show ?case by (auto simp: transitionBlock_def)
qed

lemma scheduleLifeStructure_times:
  assumes "scheduleLifeStructure g k ss projectConfig = (bs', k')"
  shows "b_time ` set bs' \<union> usedTimes ss = allTimes ss"
proof -
  let ?avail = "availableSlots ss"
  obtain br ss1 k1 where r: "placeBreaks g (length ?avail) ?avail 0 ([], ss, k) = (br, ss1, k1)"
    by (cases "placeBreaks g (length ?avail) ?avail 0 ([], ss, k)")
  have p: "placed [] ss br ss1" using availableSlots_bound r by (rule placeBreaks_placed)
  let ?tt = "parseTimeAvailable (Some (strOr (transition_time projectConfig) ''5 minutes''))"
  have t: "placeTransitions g ?tt (filter available ss1) (br, k1) = (bs', k')"
    using assms r by (simp add: scheduleLifeStructure_def Let_def)
  have "b_time ` set bs' = b_time ` set br \<union> formatted_time ` set (filter available ss1)"
    using t by (rule placeTransitions_times)
  then have "b_time ` set bs' = b_time ` set br \<union> freeTimes ss1"
    by (simp add: freeTimes_def)
  moreover from p have "usedTimes ss1 = usedTimes ss \<union> b_time ` set br" "allTimes ss1 = allTimes ss"
    by (auto simp: placed_def)
  ultimately show ?thesis using allTimes_split[of ss1] by auto
qed

lemma createTimeSlots_start:
  "sl_start ` set (createTimeSlots c e fixed) =
     {t. c \<le> t \<and> t < e \<and> 15 dvd (t - c) \<and> \<not> hasFixedBlock fixed t}"
proof (induction c e fixed rule: createTimeSlots.induct)
  case (1 c e fixed)
  show ?case
  proof (cases "c < e")
    case False
    then show ?thesis by (subst createTimeSlots.simps) auto
  next
    case True
    have step: "{t. c \<le> t \<and> t < e \<and> 15 dvd (t - c) \<and> \<not> hasFixedBlock fixed t} =
        (if \<not> hasFixedBlock fixed c then {c} else {}) \<union>
        {t. c + 15 \<le> t \<and> t < e \<and> 15 dvd (t - (c + 15)) \<and> \<not> hasFixedBlock fixed t}"
      (is "?L = ?R")
    proof (rule set_eqI, rule iffI)
      fix t assume "t \<in> ?L"
      then have t: "c \<le> t" "t < e" "15 dvd (t - c)" "\<not> hasFixedBlock fixed t" by auto
      show "t \<in> ?R"
      proof (cases "t = c")
        case True with t show ?thesis by auto
      next
        case False
        from t(3) obtain q where q: "t - c = 15 * q" by (auto simp: dvd_def)
        with t(1) False have "q \<ge> 1" by auto
        then have "c + 15 \<le> t" using q by auto
        moreover have "15 dvd (t - (c + 15))"
        proof -
          have "t - (c + 15) = 15 * (q - 1)" using q by (simp add: algebra_simps)
          then show ?thesis by (simp only: dvd_triv_left)
        qed
        ultimately show ?thesis using t by auto
      qed
    next
      fix t assume "t \<in> ?R"
      then consider "t = c" "\<not> hasFixedBlock fixed c"
        | "c + 15 \<le> t" "t < e" "15 dvd (t - (c + 15))" "\<not> hasFixedBlock fixed t"
        by (auto split: if_splits)
      then show "t \<in> ?L"
      proof cases
        case 1 with True show ?thesis by simp
      next
        case 2
        from 2(3) obtain q where "t - (c + 15) = 15 * q" by (auto simp: dvd_def)
        then have "t - c = 15 * (q + 1)" by (simp add: algebra_simps)
        then have "15 dvd (t - c)" by (simp only: dvd_triv_left)
        with 2 show ?thesis by auto
      qed
    qed
    have "sl_start ` set (createTimeSlots c e fixed) =
        (if \<not> hasFixedBlock fixed c then {c} else {}) \<union>
        sl_start ` set (createTimeSlots (c + 15) e fixed)"
      using True by (subst createTimeSlots.simps) auto
    also have "\<dots> = ?R" using 1[OF True] by simp
    finally show ?thesis using step by simp
  qed
qed

lemma createTimeSlots_slots:
  "s \<in> set (createTimeSlots c e fixed) \<Longrightarrow> available s \<and> formatted_time s = formatTime (sl_start s)"
proof (induction c e fixed rule: createTimeSlots.induct)
  case (1 c e fixed)
  show ?case
  proof (cases "c < e")
    case False
    with 1(2) show ?thesis by (subst (asm) createTimeSlots.simps) simp
  next
    case True
    from 1(2) have "s \<in> set ((if \<not> hasFixedBlock fixed c
            then [\<lparr> sl_start = c, formatted_time = formatTime c, available = True \<rparr>] else [])
           @ createTimeSlots (c + 15) e fixed)"
      using True by (subst (asm) createTimeSlots.simps) simp
    then consider "s = \<lparr> sl_start = c, formatted_time = formatTime c, available = True \<rparr>"
      | "s \<in> set (createTimeSlots (c + 15) e fixed)"
      by (auto split: if_splits)
    then show ?thesis
    proof cases
      case 1 then show ?thesis by simp
    next
      case 2 with "1.IH"[OF True] show ?thesis by simp
    qed
  qed
qed

lemma createTimeSlots_usedTimes: "usedTimes (createTimeSlots c e fixed) = {}"
  using createTimeSlots_slots by (auto simp: usedTimes_def)

lemma createTimeSlots_allTimes:
  "allTimes (createTimeSlots c e fixed) =
     formatTime ` {t. c \<le> t \<and> t < e \<and> 15 dvd (t - c) \<and> \<not> hasFixedBlock fixed t}"
proof -
  have "allTimes (createTimeSlots c e fixed) = formatTime ` sl_start ` set (createTimeSlots c e fixed)"
    unfolding allTimes_def image_image
    by (rule image_cong) (simp_all add: createTimeSlots_slots)
  then show ?thesis by (simp only: createTimeSlots_start)
qed

lemma set_insertBy: "set (insertBy cmp x ys) = insert x (set ys)"
  by (induction ys) auto

lemma set_sortBy: "set (sortBy cmp xs) = set xs"
  unfolding sortBy_def by (induction xs) (simp_all add: set_insertBy)

lemma length_insertBy: "length (insertBy cmp x ys) = Suc (length ys)"
  by (induction ys) auto

lemma length_sortBy: "length (sortBy cmp xs) = length xs"
  unfolding sortBy_def by (induction xs) (simp_all add: length_insertBy)

lemma placeMeals_times:
  "placeMeals g s e meals index (bs, k) = (bs', k') \<Longrightarrow>
   \<forall>b\<in>set bs. \<exists>t. s \<le> t \<and> t \<le> e - 30 \<and> b_time b = formatTime t \<Longrightarrow>
   \<forall>b\<in>set bs'. \<exists>t. s \<le> t \<and> t \<le> e - 30 \<and> b_time b = formatTime t"
proof (induction meals arbitrary: index bs k)
  case Nil
  then show ?case by simp
next
  case (Cons m rest)
  show ?case
  proof (cases "parseTime m")
    case NaN
    then have "placeMeals g s e rest (Suc index) (bs, k) = (bs', k')"
      using Cons.prems(1) by simp
    from Cons.IH[OF this Cons.prems(2)] show ?thesis .
  next
    case (Num t)
    show ?thesis
    proof (cases "s \<le> t \<and> t \<le> e - 30")
      case False
      then have "placeMeals g s e rest (Suc index) (bs, k) = (bs', k')"
        using Cons.prems(1) Num by auto
      from Cons.IH[OF this Cons.prems(2)] show ?thesis .
    next
      case True
      let ?b = "newBlock \<lparr> b_id := g k, b_type := ''meal'', b_time := formatTime t,
                 b_duration := ''30 min'', b_action := mealAction index,
                 b_description := Some ''Nourishment and mental break'', b_fixed := True,
                 b_energy_impact := Some ''restorative'' \<rparr>"
      have r: "placeMeals g s e rest (Suc index) (bs @ [?b], Suc k) = (bs', k')"
        using Cons.prems(1) Num True by simp
      have "\<forall>b\<in>set (bs @ [?b]). \<exists>t. s \<le> t \<and> t \<le> e - 30 \<and> b_time b = formatTime t"
        using Cons.prems(2) True by auto
      from Cons.IH[OF r this] show ?thesis .
    qed
  qed
qed

lemma scheduleFixed_times:
  "b \<in> set (fst (scheduleFixedLifeStructure g k cfg s e)) \<Longrightarrow>
   \<exists>t. s \<le> t \<and> t \<le> e - 30 \<and> b_time b = formatTime t"
proof -
  assume b: "b \<in> set (fst (scheduleFixedLifeStructure g k cfg s e))"
  let ?meals = "case meal_times cfg of None \<Rightarrow> [''12:00 PM'', ''6:00 PM''] | Some ms \<Rightarrow> ms"
  obtain bs' k' where r: "placeMeals g s e ?meals 0 ([], k) = (bs', k')"
    by (cases "placeMeals g s e ?meals 0 ([], k)")
  have "\<forall>b\<in>set bs'. \<exists>t. s \<le> t \<and> t \<le> e - 30 \<and> b_time b = formatTime t"
    using r by (rule placeMeals_times) simp
  moreover have "b \<in> set bs'" using b r by (simp add: scheduleFixedLifeStructure_def)
  ultimately show ?thesis by blast
qed

text \<open>The start times of the blocks of a generated schedule.\<close>

lemma schedule_times:
  fixes cfg :: config and g :: idgen and k :: nat
  defines "w \<equiv> wake_minutes cfg"
  defines "endT \<equiv> (if sleep_minutes cfg \<le> wake_minutes cfg then sleep_minutes cfg + 24 * 60 else sleep_minutes cfg)"
  defines "fixed \<equiv> fst (scheduleFixedLifeStructure g k cfg w endT)"
  shows "\<exists>bs. s_time_blocks (generateComprehensiveSchedule g k cfg h el ft) = Some bs
     \<and> set fixed \<subseteq> set bs
     \<and> b_time ` set bs = b_time ` set fixed \<union>
          formatTime ` {t. w \<le> t \<and> t < endT \<and> 15 dvd (t - w) \<and> \<not> hasFixedBlock fixed t}"
proof -
  let ?ln = "filter (\<lambda>n. n_status n = ''ready'') (frontier_nodes h)"
  let ?hn = "(case habit_nodes h of None \<Rightarrow> [] | Some hs \<Rightarrow> filter (\<lambda>hb. h_status hb = ''ready'') hs)"
  let ?fd = "parseTimeAvailable (Some (strOr (focus_duration cfg) ''25 minutes''))"
  obtain fx k1 where f: "scheduleFixedLifeStructure g k cfg w endT = (fx, k1)"
    by (cases "scheduleFixedLifeStructure g k cfg w endT")
  then have fx: "fx = fixed" by (simp add: fixed_def)
  let ?ss = "createTimeSlots w endT fixed"
  obtain lb ss1 where l: "scheduleLearningBlocks ?ln ?ss (identifyHighEnergyPeriods cfg el) ?fd el = (lb, ss1)"
    by (cases "scheduleLearningBlocks ?ln ?ss (identifyHighEnergyPeriods cfg el) ?fd el")
  obtain hb ss2 where hh: "scheduleHabitBlocks ?hn ss1 cfg = (hb, ss2)"
    by (cases "scheduleHabitBlocks ?hn ss1 cfg")
  obtain sb k2 where s: "scheduleLifeStructure g k1 ss2 cfg = (sb, k2)"
    by (cases "scheduleLifeStructure g k1 ss2 cfg")
  let ?bs = "sortBy byTime (fixed @ lb @ hb @ sb)"
  have gen: "s_time_blocks (generateComprehensiveSchedule g k cfg h el ft) = Some ?bs"
    using f l hh s fx
    by (simp add: generateComprehensiveSchedule_def Let_def w_def endT_def)
  have p1: "placed [] ?ss lb ss1" using l by (rule scheduleLearningBlocks_placed)
  have p2: "placed [] ss1 hb ss2" using hh by (rule scheduleHabitBlocks_placed)
  have u1: "usedTimes ss1 = b_time ` set lb" "allTimes ss1 = allTimes ?ss"
    using p1 by (auto simp: placed_def createTimeSlots_usedTimes)
  have u2: "usedTimes ss2 = b_time ` set lb \<union> b_time ` set hb" "allTimes ss2 = allTimes ?ss"
    using p2 u1 by (auto simp: placed_def)
  have u3: "b_time ` set sb \<union> usedTimes ss2 = allTimes ss2"
    using s by (rule scheduleLifeStructure_times)
  have "b_time ` set ?bs = b_time ` set fixed \<union> (b_time ` set sb \<union> usedTimes ss2)"
    unfolding set_sortBy u2 by auto
  also have "\<dots> = b_time ` set fixed \<union> allTimes ss2" by (simp only: u3)
  also have "\<dots> = b_time ` set fixed \<union> allTimes ?ss" by (simp only: u2(2))
  finally have "b_time ` set ?bs = b_time ` set fixed \<union>
          formatTime ` {t. w \<le> t \<and> t < endT \<and> 15 dvd (t - w) \<and> \<not> hasFixedBlock fixed t}"
    by (simp only: createTimeSlots_allTimes)
  moreover have "set fixed \<subseteq> set ?bs" by (auto simp: set_sortBy)
  ultimately show ?thesis using gen by blast
qed


text \<open>
  Claim C8. The window of a generated schedule ends at \<open>sleep + 1440\<close> when
  \<open>sleep \<le> wake\<close> and at \<open>sleep\<close> otherwise: every block starts at an instant of
  \<open>[wake, end)\<close>, and every 15-minute step of \<open>[wake, end)\<close> carries a block or lies in a
  meal block. When wake and sleep are equal the window is 1440 minutes long and the schedule
  has at least one block.
\<close>

theorem schedule_window:
  fixes cfg :: config and g :: idgen and k :: nat
  defines "w \<equiv> wake_minutes cfg"
  defines "endT \<equiv> (if sleep_minutes cfg \<le> wake_minutes cfg then sleep_minutes cfg + 24 * 60 else sleep_minutes cfg)"
  defines "fixed \<equiv> fst (scheduleFixedLifeStructure g k cfg w endT)"
  shows "\<exists>bs. s_time_blocks (generateComprehensiveSchedule g k cfg h el ft) = Some bs
     \<and> (\<forall>b\<in>set bs. \<exists>t. w \<le> t \<and> t < endT \<and> b_time b = formatTime t)
     \<and> (\<forall>t. w \<le> t \<and> t < endT \<and> 15 dvd (t - w) \<longrightarrow>
            formatTime t \<in> b_time ` set bs \<or> hasFixedBlock fixed t)
     \<and> (sleep_minutes cfg = wake_minutes cfg \<longrightarrow> endT - w = 1440 \<and> bs \<noteq> [])"
proof -
  let ?T = "{t. w \<le> t \<and> t < endT \<and> 15 dvd (t - w) \<and> \<not> hasFixedBlock fixed t}"
  obtain bs where gen: "s_time_blocks (generateComprehensiveSchedule g k cfg h el ft) = Some bs"
    and sub: "set fixed \<subseteq> set bs"
    and times: "b_time ` set bs = b_time ` set fixed \<union> formatTime ` ?T"
    using schedule_times[of g k cfg h el ft] unfolding w_def endT_def fixed_def by blast
  have a: "\<forall>b\<in>set bs. \<exists>t. w \<le> t \<and> t < endT \<and> b_time b = formatTime t"
  proof
    fix b assume "b \<in> set bs"
    then have "b_time b \<in> b_time ` set fixed \<union> formatTime ` ?T" using times by blast
    then consider b' where "b' \<in> set fixed" "b_time b = b_time b'"
      | t where "t \<in> ?T" "b_time b = formatTime t" by auto
    then show "\<exists>t. w \<le> t \<and> t < endT \<and> b_time b = formatTime t"
    proof cases
      case 1
      from scheduleFixed_times[OF 1(1)[unfolded fixed_def]]
      obtain t where "w \<le> t" "t \<le> endT - 30" "b_time b' = formatTime t" by blast
      with 1(2) show ?thesis by (intro exI[of _ t]) auto
    next
      case 2
      then show ?thesis by blast
    qed
  qed
  have b: "\<forall>t. w \<le> t \<and> t < endT \<and> 15 dvd (t - w) \<longrightarrow>
            formatTime t \<in> b_time ` set bs \<or> hasFixedBlock fixed t"
    using times by blast
  have c: "sleep_minutes cfg = wake_minutes cfg \<longrightarrow> endT - w = 1440 \<and> bs \<noteq> []"
  proof
    assume eq: "sleep_minutes cfg = wake_minutes cfg"
    then have e: "endT - w = 1440" by (simp add: endT_def w_def)
    have "bs \<noteq> []"
    proof (cases "fixed = []")
      case False
      with sub show ?thesis by (cases fixed) auto
    next
      case True
      then have "\<not> hasFixedBlock fixed w" by (simp add: hasFixedBlock_def)
      then have "w \<in> ?T" using e by simp
      then have "formatTime w \<in> b_time ` set bs" using times by blast
      then show ?thesis by auto
    qed
    with e show "endT - w = 1440 \<and> bs \<noteq> []" by simp
  qed
  from gen a b c show ?thesis by blast
qed

theorem schedule_window_witness:
  "sleep_minutes exConfig24 = wake_minutes exConfig24
   \<and> (\<exists>bs. s_time_blocks (generateComprehensiveSchedule (id_source exEnv) 0 exConfig24 exHTA 3 ''mixed'') = Some bs
        \<and> bs \<noteq> [] \<and> formatTime 480 \<in> b_time ` set bs)"
proof -
  have eq: "sleep_minutes exConfig24 = wake_minutes exConfig24"
    by (simp add: exConfig24_def exConfig_def)
  have nf: "\<not> hasFixedBlock (fst (scheduleFixedLifeStructure (id_source exEnv) 0 exConfig24 480 1920)) 480"
    by code_simp
  have w: "wake_minutes exConfig24 = 480" "sleep_minutes exConfig24 = 480"
    by (simp_all add: exConfig24_def exConfig_def)
  from schedule_window[of "id_source exEnv" 0 exConfig24 exHTA 3 "''mixed''"]
  obtain bs where gen: "s_time_blocks (generateComprehensiveSchedule (id_source exEnv) 0 exConfig24 exHTA 3 ''mixed'') = Some bs"
    and b: "\<forall>t. 480 \<le> t \<and> t < 1920 \<and> 15 dvd (t - 480) \<longrightarrow>
            formatTime t \<in> b_time ` set bs \<or> hasFixedBlock (fst (scheduleFixedLifeStructure (id_source exEnv) 0 exConfig24 480 1920)) t"
    and c: "bs \<noteq> []"
    unfolding w by auto
  from b nf have "formatTime 480 \<in> b_time ` set bs" by auto
  with eq gen c show ?thesis by blast
qed


section \<open>Properties of the task selection\<close>

text \<open>
  The filter itself: a node with status \<^verbatim>\<open>ready\<close>, when no learning path is active, passes
  exactly if each of its prerequisites is the id or the title of a completed node or the topic
  of a history entry.
\<close>

lemma prereqMet_iff:
  "prereqMet completedTaskIds completedTaskTitles lh p \<longleftrightarrow>
     p \<in> set completedTaskIds \<or> p \<in> set completedTaskTitles
     \<or> p \<in> t_topic ` set (completed_topics lh)"
  by (auto simp: prereqMet_def list_ex_iff)

lemma isReadyNode_iff:
  assumes "n_status node = ''ready''" "active_learning_path cfg = None"
  shows "isReadyNode cfg completedTaskIds completedTaskTitles lh node \<longleftrightarrow>
     (\<forall>p \<in> set (case n_prerequisites node of None \<Rightarrow> [] | Some ps \<Rightarrow> ps).
        p \<in> set completedTaskIds \<or> p \<in> set completedTaskTitles
        \<or> p \<in> t_topic ` set (completed_topics lh))"
  using assms
  by (auto simp: isReadyNode_def prereqMet_iff list_all_iff split: option.splits)

lemma generateAdaptiveTasks_frame:
  assumes "generateAdaptiveTasks e k st projectId lh ctx = (r, st1)"
  shows "files st1 (ProjectFile projectId (dayFile d)) = files st (ProjectFile projectId (dayFile d))
       \<and> unwritable st1 = unwritable st"
  using assms dayFile_not_hta[of d]
  by (auto simp: generateAdaptiveTasks_def Let_def saveProjectData_other saveProjectData_unwritable
      split: option.splits if_splits)

lemma nextTaskCandidates_frame:
  assumes "nextTaskCandidates e k st projectId cfg h lh ctx = (r, st1)"
  shows "files st1 (ProjectFile projectId (dayFile d)) = files st (ProjectFile projectId (dayFile d))
       \<and> unwritable st1 = unwritable st"
proof -
  let ?ids = "(case completed_nodes h of None \<Rightarrow> [] | Some cs \<Rightarrow> map n_id cs)"
  let ?titles = "(case completed_nodes h of None \<Rightarrow> [] | Some cs \<Rightarrow> map n_title cs)"
  let ?ready = "filter (isReadyNode cfg ?ids ?titles lh) (frontier_nodes h)"
  show ?thesis
  proof (cases "?ready \<noteq> []")
    case True
    then have "st1 = st" using assms by (simp add: nextTaskCandidates_def Let_def)
    then show ?thesis by simp
  next
    case False
    obtain r2 st2 where g: "generateAdaptiveTasks e k st projectId lh ctx = (r2, st2)"
      by (cases "generateAdaptiveTasks e k st projectId lh ctx")
    have fr: "files st2 (ProjectFile projectId (dayFile d)) = files st (ProjectFile projectId (dayFile d))"
        "unwritable st2 = unwritable st"
      using generateAdaptiveTasks_frame[OF g] by simp_all
    from assms False g have
      "st1 = st2 \<or> (\<exists>x. st1 = snd (saveProjectData st2 projectId ''hta.json'' x))"
      by (auto simp: nextTaskCandidates_def Let_def split: sum.splits option.splits if_splits)
    then show ?thesis
      using fr dayFile_not_hta[of d]
      by (auto simp: saveProjectData_other saveProjectData_unwritable)
  qed
qed

lemma getNextTask_success:
  assumes ok: "getNextTask e k st ctx energyLevel timeAvailable = (Inr (Some nextTask), st')"
  shows "\<exists>projectId cfg h lh ready st1.
           requireActiveProject st = Inr projectId
         \<and> getActiveHTA st projectId = Some h
         \<and> nextTaskCandidates e k st projectId cfg h lh ctx = (Inr ready, st1)
         \<and> st' = ensureInSchedule e st1 projectId h energyLevel nextTask"
proof -
  obtain projectId where p: "requireActiveProject st = Inr projectId"
    using ok by (cases "requireActiveProject st") (simp_all add: getNextTask_def)
  obtain cfg where c: "asConfig (loadProjectData st projectId ''config.json'') = Some cfg"
    using ok p by (cases "asConfig (loadProjectData st projectId ''config.json'')")
      (simp_all add: getNextTask_def)
  let ?ap = "strOr (active_learning_path cfg) ''general''"
  let ?hf = "(case asHTA (loadPathData st projectId ?ap ''hta.json'') of
                       Some h \<Rightarrow> Some h
                     | None \<Rightarrow> asHTA (loadProjectData st projectId ''hta.json''))"
  let ?lh = "(case asHistory (loadPathData st projectId ?ap ''learning_history.json'') of
               Some lh \<Rightarrow> lh
             | None \<Rightarrow>
                 (case asHistory (loadProjectData st projectId ''learning_history.json'') of
                    Some lh \<Rightarrow> lh
                  | None \<Rightarrow> \<lparr> completed_topics = [], knowledge_gaps = [] \<rparr>))"
  obtain h where h: "?hf = Some h"
    using ok p c by (cases ?hf) (simp_all add: getNextTask_def Let_def)
  have ga: "getActiveHTA st projectId = Some h"
    using c h by (simp add: getActiveHTA_def Let_def split: option.splits)
  obtain r st1 where n: "nextTaskCandidates e k st projectId cfg h ?lh ctx = (r, st1)"
    by (cases "nextTaskCandidates e k st projectId cfg h ?lh ctx")
  obtain ready where r: "r = Inr ready"
    using ok p c h n by (cases r) (simp_all add: getNextTask_def Let_def)
  have "st' = ensureInSchedule e st1 projectId h energyLevel nextTask"
    using ok p c h n r
    by (simp add: getNextTask_def Let_def split: if_splits sum.splits option.splits)
  with p ga n r show ?thesis by blast
qed

text \<open>
  Claim C10. A call of \<^verbatim>\<open>getNextTask\<close> that selects a task writes to the store: when no
  block of today's schedule has the id of the selected node, the schedule (a new one for the
  project when the day has none) gets one more block at its end, of type \<^verbatim>\<open>learning\<close>,
  carrying the node's id and timed at the current clock time, \<^verbatim>\<open>total_blocks\<close> is set to
  the new length, and this schedule is what the day's file holds afterwards. When the node is
  already in the schedule the file is left as it is; so it is when the file cannot be
  written, since the result of the save is not looked at.
\<close>

theorem getNextTask_tracks_task_in_schedule:
  assumes ok: "getNextTask e k st contextFromMemory energyLevel timeAvailable = (Inr (Some nextTask), st')"
  shows "\<exists>projectId h. requireActiveProject st = Inr projectId \<and> getActiveHTA st projectId = Some h
     \<and> (let key = ProjectFile projectId (dayFile (today e));
             sched = (case asSchedule (files st key) of
                        None \<Rightarrow> freshSchedule e projectId h energyLevel
                      | Some s \<Rightarrow> s);
             blocks = (case s_time_blocks sched of None \<Rightarrow> [] | Some bs \<Rightarrow> bs)
         in files st' key =
              (if list_ex (\<lambda>b. b_id b = n_id nextTask) blocks \<or> key \<in> unwritable st
               then files st key
               else Some (FSchedule (sched \<lparr> s_time_blocks :=
                                               Some (map jsonBlock blocks @ [trackingBlock e nextTask]),
                                             s_total_blocks := int (length blocks) + 1 \<rparr>))))
     \<and> b_id (trackingBlock e nextTask) = n_id nextTask
     \<and> b_type (trackingBlock e nextTask) = ''learning''
     \<and> b_time (trackingBlock e nextTask) = formatTime (clock_minutes e)"
proof -
  from getNextTask_success[OF ok] obtain projectId cfg h lh ready st1 where
    p: "requireActiveProject st = Inr projectId" and ga: "getActiveHTA st projectId = Some h"
    and n: "nextTaskCandidates e k st projectId cfg h lh contextFromMemory = (Inr ready, st1)"
    and st': "st' = ensureInSchedule e st1 projectId h energyLevel nextTask"
    by blast
  let ?key = "ProjectFile projectId (dayFile (today e))"
  have fr: "files st1 ?key = files st ?key" "unwritable st1 = unwritable st"
    using nextTaskCandidates_frame[OF n, of "today e"] by simp_all
  let ?sched = "(case asSchedule (files st ?key) of
                        None \<Rightarrow> freshSchedule e projectId h energyLevel
                      | Some s \<Rightarrow> s)"
  let ?blocks = "(case s_time_blocks ?sched of None \<Rightarrow> [] | Some bs \<Rightarrow> bs)"
  have "files st' ?key =
              (if list_ex (\<lambda>b. b_id b = n_id nextTask) ?blocks \<or> ?key \<in> unwritable st
               then files st ?key
               else Some (FSchedule (?sched \<lparr> s_time_blocks :=
                                               Some (map jsonBlock ?blocks @ [trackingBlock e nextTask]),
                                             s_total_blocks := int (length ?blocks) + 1 \<rparr>)))"
    unfolding st' ensureInSchedule_def loadProjectData_def fr Let_def
    by (simp add: saveProjectData_def fr jsonBlock_def trackingBlock_def newBlock_def
             split: option.splits)
  moreover have "b_id (trackingBlock e nextTask) = n_id nextTask"
    "b_type (trackingBlock e nextTask) = ''learning''"
    "b_time (trackingBlock e nextTask) = formatTime (clock_minutes e)"
    by (simp_all add: trackingBlock_def)
  ultimately show ?thesis using p ga by (simp add: Let_def)
qed

theorem getNextTask_tracks_task_in_schedule_witness:
  "\<exists>nextTask st'. getNextTask exEnv 0 noDayStore [] 3 ''30 minutes'' = (Inr (Some nextTask), st')
      \<and> n_id nextTask = ''n1''
      \<and> files noDayStore (ProjectFile ''p'' ''day_2025-01-01.json'') = None
      \<and> (\<exists>sched. files st' (ProjectFile ''p'' ''day_2025-01-01.json'') = Some (FSchedule sched)
            \<and> map_option (map b_id) (s_time_blocks sched) = Some [''n1'']
            \<and> map_option (map b_time) (s_time_blocks sched) = Some [''9:00 AM'']
            \<and> s_total_blocks sched = 1)"
proof -
  have f: "fst (getNextTask exEnv 0 noDayStore [] 3 ''30 minutes'') = Inr (Some exNode1)"
    by code_simp
  then obtain st' where ok: "getNextTask exEnv 0 noDayStore [] 3 ''30 minutes'' = (Inr (Some exNode1), st')"
    by (cases "getNextTask exEnv 0 noDayStore [] 3 ''30 minutes''") simp
  have p: "requireActiveProject noDayStore = Inr ''p''"
    by (simp add: requireActiveProject_def loadGlobalData_def noDayStore_def)
  have ga: "getActiveHTA noDayStore ''p'' = Some exHTA"
    by (simp add: getActiveHTA_def loadProjectData_def loadPathData_def noDayStore_def strOr_def exConfig_def)
  have none: "files noDayStore (ProjectFile ''p'' ''day_2025-01-01.json'') = None"
    by (simp add: noDayStore_def)
  have day: "dayFile (today exEnv) = ''day_2025-01-01.json''"
    by (simp add: dayFile_def exEnv_def)
  have ft: "formatTime (clock_minutes exEnv) = ''9:00 AM''" by code_simp
  have uw: "unwritable noDayStore = {}" by (simp add: noDayStore_def)
  from getNextTask_tracks_task_in_schedule[OF ok]
  obtain projectId h where p': "requireActiveProject noDayStore = Inr projectId"
    and ga': "getActiveHTA noDayStore projectId = Some h"
    and eff: "(let key = ProjectFile projectId (dayFile (today exEnv));
             sched = (case asSchedule (files noDayStore key) of
                        None \<Rightarrow> freshSchedule exEnv projectId h 3
                      | Some s \<Rightarrow> s);
             blocks = (case s_time_blocks sched of None \<Rightarrow> [] | Some bs \<Rightarrow> bs)
         in files st' key =
              (if list_ex (\<lambda>b. b_id b = n_id exNode1) blocks \<or> key \<in> unwritable noDayStore
               then files noDayStore key
               else Some (FSchedule (sched \<lparr> s_time_blocks :=
                                               Some (map jsonBlock blocks @ [trackingBlock exEnv exNode1]),
                                             s_total_blocks := int (length blocks) + 1 \<rparr>))))"
    by blast
  from p p' have pid: "projectId = ''p''" by simp
  from ga ga' pid have hh: "h = exHTA" by simp
  from eff have "files st' (ProjectFile ''p'' ''day_2025-01-01.json'') =
      Some (FSchedule ((freshSchedule exEnv ''p'' exHTA 3)
         \<lparr> s_time_blocks := Some [trackingBlock exEnv exNode1], s_total_blocks := 1 \<rparr>))"
    unfolding pid hh day by (simp add: none uw Let_def freshSchedule_def)
  then have "\<exists>sched. files st' (ProjectFile ''p'' ''day_2025-01-01.json'') = Some (FSchedule sched)
            \<and> map_option (map b_id) (s_time_blocks sched) = Some [''n1'']
            \<and> map_option (map b_time) (s_time_blocks sched) = Some [''9:00 AM'']
            \<and> s_total_blocks sched = 1"
    by (simp add: trackingBlock_def exNode1_def ft)
  with ok none show ?thesis by (auto simp: exNode1_def)
qed

text \<open>
  Claim C2. A node with a prerequisite that none of the three lookups satisfies must not be
  eligible. The filter that computes the ready nodes does reject it, but when that filter
  leaves no node, \<^verbatim>\<open>getNextTask\<close> takes every node whose status is \<^verbatim>\<open>ready\<close> from the
  project's tree, without looking at prerequisites: here the node waiting for \<^verbatim>\<open>n1\<close> is
  the task selected.
\<close>

theorem getNextTask_selects_node_with_unmet_prerequisite:
  "fst (getNextTask exEnv 0 blockedStore [] 3 ''30 minutes'') = Inr (Some exNode2)
   \<and> n_prerequisites exNode2 = Some [''n1'']
   \<and> \<not> prereqMet [] [] \<lparr> completed_topics = [], knowledge_gaps = [] \<rparr> ''n1''"
  by code_simp

end
